theory Spec2Isabelle
  imports Complex_Main
begin

section \<open>The KTU result proxy (server/server.js)\<close>

text \<open>
  The proxy answers a request for a roll number from an in-memory cache or, on a miss,
  fetches the result page over HTTP with retries and, optionally, through a headless
  browser. The functions \<open>fetchWithRetries\<close>, \<open>playwrightFetch\<close> and
  \<open>fetchResultForRoll\<close> are embedded below.

  What the JavaScript leaves to its surroundings is made explicit:
  \<^item> the outcome of the \<open>i\<close>-th call of \<open>axios.get\<close> inside one run of the retry
    loop is \<open>upstream i\<close>, a response or the error that the call rejects with;
  \<^item> the \<open>i\<close>-th sample of \<open>Math.random()\<close> is \<open>random i\<close>, a number in \<open>[0, 1)\<close>;
  \<^item> the browser steps of \<open>playwrightFetch\<close> either throw or yield the page content;
  \<^item> the cache is the content of the \<open>NodeCache\<close> instance as \<open>cache.get\<close> sees it
    at the time of the call: a key is mapped exactly when it has an entry that has not
    expired;
  \<^item> every call to the outside and every cache access is recorded, in order, in a trace
    of events, so that "how many attempts", "which waits" and "was the upstream
    contacted" are properties of the returned trace.
  Numbers are JavaScript doubles in the source. A double is modelled by the real number
  it stands for, and every product and sum of the source is rounded to the nearest double
  (\<open>fl\<close>, ties to even, 53 bits); the non-finite values (\<open>Infinity\<close>, \<open>NaN\<close>) are
  outside the model, so it speaks for the runs in which no number reaches \<open>2^1024\<close>.
  The configuration values are the integers that \<open>parseInt\<close> yields. The log lines (\<open>console.warn\<close>,
  \<open>console.error\<close>) are left out of the trace; \<open>limit(...)\<close> is the event \<open>LimitRun\<close>,
  one request at a time.
\<close>

subsection \<open>Data\<close>

text \<open>
  A value as \<open>JSON.parse\<close> yields it. The body of a response is such a value:
  \<open>axios\<close> parses a body that is JSON and hands on any other body as a string.
\<close>

datatype js_value =
    JString string
  | JNumber real
  | JBool bool
  | JNull
  | JArray "js_value list"
  | JObject "(string \<times> js_value) list"

text \<open>A response as \<open>axios\<close> resolves it: the body and the headers (which may be absent).\<close>

record response =
  data :: js_value
  headers :: "(string \<times> string) list option"

text \<open>
  A thrown value. \<open>response\<close> is the status of \<open>err.response\<close> when the error carries
  a response, \<open>message\<close> is \<open>err.message\<close> (empty when there is none) and
  \<open>as_string\<close> is what \<open>String(err)\<close> yields.
\<close>

record js_error =
  response :: "nat option"
  message :: string
  as_string :: string

type_synonym outcome = "js_error + response"

datatype event =
    CacheGet string
  | LimitRun
  | is_AxiosGet: AxiosGet string
  | is_Sleep: Sleep int
  | is_PlaywrightFetch: PlaywrightFetch string
  | is_CacheSet: CacheSet string js_value

text \<open>What \<open>fetchResultForRoll\<close> resolves to: \<open>{ok: true, fromCache, data, headers}\<close>,
  where the field \<open>headers\<close> may be missing, or \<open>{ok: false, error}\<close>.\<close>

datatype result =
    Success (fromCache: bool) (body: js_value) (result_headers: "(string \<times> string) list option")
  | Failure (error: string)

record config =
  MAX_RETRIES :: int
  BACKOFF_BASE :: int
  PLAYWRIGHT_FALLBACK :: bool

text \<open>The browser of \<open>playwrightFetch\<close>: \<open>launch\<close> is the error that loading the module
  or launching the browser throws, if any; \<open>render\<close> is the outcome of opening a page,
  navigating and reading the content; \<open>close\<close> is the error that closing throws, if any.\<close>

record browser =
  launch :: "js_error option"
  render :: "js_error + string"
  close :: "js_error option"

record env =
  upstream :: "nat \<Rightarrow> outcome"
  random :: "nat \<Rightarrow> real"
  chromium :: browser

type_synonym cache = "string \<rightharpoonup> js_value"

subsection \<open>Helpers of the language\<close>

text \<open>\<open>Math.round\<close>: the nearest integer, a tie going up.\<close>

definition Math_round :: "real \<Rightarrow> int" where
  "Math_round x = \<lfloor>x + 1 / 2\<rfloor>"

text \<open>
  Rounding to the nearest double. \<open>pow2 k\<close> is \<open>2^k\<close> for an integer \<open>k\<close>;
  \<open>exponent x\<close> is the \<open>e\<close> with \<open>2^e \<le> |x| < 2^(e+1)\<close>, found by halving or doubling;
  the doubles next to \<open>x\<close> are the multiples of \<open>2^(e-52)\<close>, or of \<open>2^(-1074)\<close> for the
  subnormal numbers, and \<open>x\<close> goes to the nearest of them, a tie to the even one.
\<close>

definition pow2 :: "int \<Rightarrow> real" where
  "pow2 k = (if 0 \<le> k then 2 ^ nat k else 1 / 2 ^ nat (- k))"

definition roundTiesToEven :: "real \<Rightarrow> int" where
  "roundTiesToEven q =
     (let f = \<lfloor>q\<rfloor>
      in if q - of_int f < 1 / 2 then f
         else if 1 / 2 < q - of_int f then f + 1
         else if even f then f else f + 1)"

function binade_up :: "real \<Rightarrow> nat" where
  "binade_up x = (if 2 \<le> x then Suc (binade_up (x / 2)) else 0)"
  by pat_completeness auto
termination
proof (relation "measure (\<lambda>x. nat \<lfloor>x\<rfloor>)")
  show "wf (measure (\<lambda>x::real. nat \<lfloor>x\<rfloor>))" by simp
next
  fix x :: real
  assume "2 \<le> x"
  then have "x / 2 \<le> x - 1" by simp
  then have "\<lfloor>x / 2\<rfloor> \<le> \<lfloor>x - 1\<rfloor>" by (rule floor_mono)
  moreover have "\<lfloor>x - 1\<rfloor> = \<lfloor>x\<rfloor> - 1" by simp
  moreover from \<open>2 \<le> x\<close> have "2 \<le> \<lfloor>x\<rfloor>" by (simp add: le_floor_iff)
  ultimately show "(x / 2, x) \<in> measure (\<lambda>x. nat \<lfloor>x\<rfloor>)" by simp
qed

function binade_down :: "real \<Rightarrow> nat" where
  "binade_down x = (if 0 < x \<and> x < 1 then Suc (binade_down (2 * x)) else 0)"
  by pat_completeness auto
termination
proof (relation "measure (\<lambda>x. nat \<lfloor>1 / x\<rfloor>)")
  show "wf (measure (\<lambda>x::real. nat \<lfloor>1 / x\<rfloor>))" by simp
next
  fix x :: real
  assume a: "0 < x \<and> x < 1"
  define y where "y = 1 / x"
  from a have y: "1 < y" by (simp add: y_def)
  have "\<lfloor>y / 2\<rfloor> < \<lfloor>y\<rfloor>"
  proof (cases "2 \<le> y")
    case True
    then have "y / 2 \<le> y - 1" by simp
    then have "\<lfloor>y / 2\<rfloor> \<le> \<lfloor>y - 1\<rfloor>" by (rule floor_mono)
    then show ?thesis by simp
  next
    case False
    with y have "\<lfloor>y / 2\<rfloor> = 0" "1 \<le> \<lfloor>y\<rfloor>" by (simp_all add: floor_eq_iff le_floor_iff)
    then show ?thesis by simp
  qed
  then have "\<lfloor>1 / (2 * x)\<rfloor> < \<lfloor>1 / x\<rfloor>"
    by (simp add: y_def mult.commute)
  moreover from y have "0 < \<lfloor>1 / x\<rfloor>" by (simp add: y_def less_floor_iff)
  ultimately have "nat \<lfloor>1 / (2 * x)\<rfloor> < nat \<lfloor>1 / x\<rfloor>"
    by (simp add: zless_nat_conj)
  then show "(2 * x, x) \<in> measure (\<lambda>x. nat \<lfloor>1 / x\<rfloor>)" by simp
qed

declare binade_up.simps [simp del] binade_down.simps [simp del]

definition exponent :: "real \<Rightarrow> int" where
  "exponent x = (if 1 \<le> \<bar>x\<bar> then int (binade_up \<bar>x\<bar>) else - int (binade_down \<bar>x\<bar>))"

definition fl :: "real \<Rightarrow> real" where
  "fl x =
     (if x = 0 then 0
      else let u = max (exponent x - 52) (- 1074)
           in of_int (roundTiesToEven (x / pow2 u)) * pow2 u)"

text \<open>Truthiness of what \<open>cache.get\<close> returns: \<open>undefined\<close>, the empty string, zero,
  \<open>false\<close> and \<open>null\<close> are falsy; every array and object is truthy.\<close>

fun truthy :: "js_value option \<Rightarrow> bool" where
  "truthy None = False"
| "truthy (Some (JString s)) = (s \<noteq> [])"
| "truthy (Some (JNumber x)) = (x \<noteq> 0)"
| "truthy (Some (JBool b)) = b"
| "truthy (Some JNull) = False"
| "truthy (Some (JArray xs)) = True"
| "truthy (Some (JObject kvs)) = True"

text \<open>\<open>err.message || String(err)\<close>\<close>

definition reason :: "js_error \<Rightarrow> string" where
  "reason err = (if message err \<noteq> [] then message err else as_string err)"

text \<open>\<open>encodeURIComponent\<close> on the bytes of the string: the unreserved characters are
  kept, every other byte becomes \<open>%XX\<close>.\<close>

definition unreserved :: "char \<Rightarrow> bool" where
  "unreserved c \<longleftrightarrow>
     c \<in> set ''ABCDEFGHIJKLMNOPQRSTUVWXYZabcdefghijklmnopqrstuvwxyz0123456789-_.!~*()''
     \<or> c = CHR 0x27"

definition hex_digit :: "nat \<Rightarrow> char" where
  "hex_digit n = ''0123456789ABCDEF'' ! n"

definition encodeURIComponent :: "string \<Rightarrow> string" where
  "encodeURIComponent s =
     concat (map (\<lambda>c. if unreserved c then [c]
                      else [CHR ''%'', hex_digit (of_char c div 16), hex_digit (of_char c mod 16)]) s)"

definition KTU_FETCH_URL_TEMPLATE :: "string \<Rightarrow> string" where
  "KTU_FETCH_URL_TEMPLATE roll = ''https://ktu.edu.in/results?roll='' @ encodeURIComponent roll"

subsection \<open>fetchWithRetries\<close>

text \<open>\<open>!err.response || [502, 503, 504].includes(status)\<close>\<close>

definition isGateway :: "js_error \<Rightarrow> bool" where
  "isGateway err =
     (case response err of None \<Rightarrow> True | Some status \<Rightarrow> status \<in> set [502, 503, 504])"

text \<open>
  The wait before the next retry, \<open>attempt\<close> being the counter after its increment and
  \<open>r\<close> the double that \<open>Math.random()\<close> returned. \<open>BACKOFF_BASE\<close> is the double
  nearest to the configured integer; the product with the power of two, the product
  \<open>r * 200\<close> and the sum \<open>backoff + jitter\<close> are each rounded to a double. The sum of two
  whole doubles is whole, so the wait is an integer.
\<close>

definition backoff :: "int \<Rightarrow> nat \<Rightarrow> int" where
  "backoff base attempt =
     Math_round (fl (fl (real_of_int base) * fl (2 ^ (attempt - 1))))"

definition jitter :: "real \<Rightarrow> int" where
  "jitter r = Math_round (fl (r * 200))"

definition wait :: "int \<Rightarrow> nat \<Rightarrow> real \<Rightarrow> int" where
  "wait base attempt r =
     \<lfloor>fl (real_of_int (backoff base attempt) + real_of_int (jitter r))\<rfloor>"

text \<open>
  The body of \<open>while (true)\<close>, with the counter \<open>attempt\<close> as the loop state. The counter
  is the number of failed calls so far, hence also the index of the next call. The
  function returns what the loop returns (\<open>Inr\<close>) or throws (\<open>Inl\<close>), and the events
  from this iteration on.
\<close>

function retry_loop :: "env \<Rightarrow> int \<Rightarrow> string \<Rightarrow> int \<Rightarrow> nat \<Rightarrow> outcome \<times> event list" where
  "retry_loop e base url maxRetries attempt =
     (case upstream e attempt of
        Inr res \<Rightarrow> (Inr res, [AxiosGet url])
      | Inl err \<Rightarrow>
          if \<not> isGateway err \<or> int (Suc attempt) > maxRetries
          then (Inl err, [AxiosGet url])
          else (case retry_loop e base url maxRetries (Suc attempt) of
                  (r, tr) \<Rightarrow>
                    (r, AxiosGet url # Sleep (wait base (Suc attempt) (random e attempt)) # tr)))"
  by pat_completeness auto
termination
  by (relation "measure (\<lambda>(e, base, url, maxRetries, attempt). nat (maxRetries - int attempt))")
     auto

declare retry_loop.simps [simp del]

definition fetchWithRetries :: "env \<Rightarrow> int \<Rightarrow> string \<Rightarrow> int \<Rightarrow> outcome \<times> event list" where
  "fetchWithRetries e base url maxRetries = retry_loop e base url maxRetries 0"

text \<open>Readings of a trace: the calls of \<open>axios.get\<close> and the waits.\<close>

definition attempts :: "event list \<Rightarrow> nat" where
  "attempts tr = length (filter is_AxiosGet tr)"

fun sleeps :: "event list \<Rightarrow> int list" where
  "sleeps [] = []"
| "sleeps (Sleep w # tr) = w # sleeps tr"
| "sleeps (_ # tr) = sleeps tr"

definition fallback_calls :: "event list \<Rightarrow> nat" where
  "fallback_calls tr = length (filter is_PlaywrightFetch tr)"

definition cache_writes :: "event list \<Rightarrow> nat" where
  "cache_writes tr = length (filter is_CacheSet tr)"

subsection \<open>playwrightFetch\<close>

text \<open>The \<open>finally\<close> block closes the browser once it was launched; an error thrown by
  closing replaces whatever the \<open>try\<close> block produced.\<close>

definition playwrightFetch :: "browser \<Rightarrow> string \<Rightarrow> js_error + response" where
  "playwrightFetch b url =
     (case launch b of
        Some err \<Rightarrow> Inl err
      | None \<Rightarrow>
          (case render b of
             Inl err \<Rightarrow> (case close b of Some cerr \<Rightarrow> Inl cerr | None \<Rightarrow> Inl err)
           | Inr html \<Rightarrow>
               (case close b of
                  Some cerr \<Rightarrow> Inl cerr
                | None \<Rightarrow>
                    Inr \<lparr>data = JString html,
                         headers = Some [(''x-playwright-fallback'', ''1'')]\<rparr>)))"

subsection \<open>fetchResultForRoll\<close>

text \<open>\<open>resp.headers || {}\<close>\<close>

definition headers_or_empty :: "response \<Rightarrow> (string \<times> string) list" where
  "headers_or_empty resp = (case headers resp of None \<Rightarrow> [] | Some h \<Rightarrow> h)"

definition fetchResultForRoll ::
  "config \<Rightarrow> env \<Rightarrow> cache \<Rightarrow> string \<Rightarrow> result \<times> cache \<times> event list" where
  "fetchResultForRoll cfg e c roll =
     (let cacheKey = ''ktu:roll:'' @ roll;
          cached = c cacheKey
      in if truthy cached then (Success True (the cached) None, c, [CacheGet cacheKey])
         else
           let url = KTU_FETCH_URL_TEMPLATE roll
           in (case fetchWithRetries e (BACKOFF_BASE cfg) url (MAX_RETRIES cfg) of
                 (Inr resp, tr) \<Rightarrow>
                   (Success False (data resp) (Some (headers_or_empty resp)),
                    c(cacheKey \<mapsto> data resp),
                    [CacheGet cacheKey, LimitRun] @ tr @ [CacheSet cacheKey (data resp)])
               | (Inl err, tr) \<Rightarrow>
                   if PLAYWRIGHT_FALLBACK cfg
                   then (case playwrightFetch (chromium e) url of
                           Inr pwResp \<Rightarrow>
                             (Success False (data pwResp) (Some (headers_or_empty pwResp)),
                              c(cacheKey \<mapsto> data pwResp),
                              [CacheGet cacheKey, LimitRun] @ tr
                                @ [PlaywrightFetch url, CacheSet cacheKey (data pwResp)])
                         | Inl pwErr \<Rightarrow>
                             (Failure (reason pwErr), c,
                              [CacheGet cacheKey, LimitRun] @ tr @ [PlaywrightFetch url]))
                   else (Failure (reason err), c, [CacheGet cacheKey, LimitRun] @ tr)))"

text \<open>
  The tag that tells a result of the browser fallback from one of the direct fetch: the
  marker header that \<open>playwrightFetch\<close> puts on its response and that
  \<open>fetchResultForRoll\<close> hands on in the field \<open>headers\<close>.
\<close>

definition servedByFallback :: "result \<Rightarrow> bool" where
  "servedByFallback r =
     (case r of
        Success _ _ (Some h) \<Rightarrow> map_of h ''x-playwright-fallback'' = Some ''1''
      | _ \<Rightarrow> False)"

subsection \<open>Concrete runs\<close>

text \<open>Errors, responses and environments used to run the functions on concrete inputs.\<close>

definition err503 :: js_error where
  "err503 = \<lparr>response = Some 503, message = ''Request failed with status code 503'',
             as_string = ''AxiosError: Request failed with status code 503''\<rparr>"

definition err404 :: js_error where
  "err404 = \<lparr>response = Some 404, message = ''Request failed with status code 404'',
             as_string = ''AxiosError: Request failed with status code 404''\<rparr>"

definition err_timeout :: js_error where
  "err_timeout = \<lparr>response = None, message = ''timeout of 8000ms exceeded'',
                 as_string = ''AxiosError: timeout of 8000ms exceeded''\<rparr>"

definition err_browser :: js_error where
  "err_browser = \<lparr>response = None, message = ''page.goto: net::ERR_CONNECTION_REFUSED'',
                 as_string = ''Error: page.goto: net::ERR_CONNECTION_REFUSED''\<rparr>"

definition page :: response where
  "page = \<lparr>data = JString ''<html>marks</html>'',
           headers = Some [(''content-type'', ''text/html'')]\<rparr>"

definition empty_page :: response where
  "empty_page = \<lparr>data = JString [], headers = Some [(''content-length'', ''0'')]\<rparr>"

text \<open>A response whose body is the JSON text \<open>0\<close>.\<close>

definition json_zero :: response where
  "json_zero = \<lparr>data = JNumber 0, headers = Some [(''content-type'', ''application/json'')]\<rparr>"

definition browser_ok :: browser where
  "browser_ok = \<lparr>launch = None, render = Inr ''<html>rendered</html>'', close = None\<rparr>"

definition browser_down :: browser where
  "browser_down = \<lparr>launch = None, render = Inl err_browser, close = None\<rparr>"

text \<open>An upstream that answers the calls with the outcomes of a list, in order, and
  with a fixed outcome after that.\<close>

definition script :: "outcome list \<Rightarrow> outcome \<Rightarrow> nat \<Rightarrow> outcome" where
  "script xs d i = (if i < length xs then xs ! i else d)"

definition half :: "nat \<Rightarrow> real" where
  "half i = 1 / 2"

definition near_one :: "nat \<Rightarrow> real" where
  "near_one i = 511 / 512"

definition env_503 :: env where
  "env_503 = \<lparr>upstream = script [] (Inl err503), random = half, chromium = browser_ok\<rparr>"

definition env_503_late_jitter :: env where
  "env_503_late_jitter =
     \<lparr>upstream = script [] (Inl err503), random = near_one, chromium = browser_ok\<rparr>"

definition env_recovers :: env where
  "env_recovers =
     \<lparr>upstream = script [Inl err503, Inl err_timeout] (Inr page), random = half,
      chromium = browser_ok\<rparr>"

definition env_404 :: env where
  "env_404 = \<lparr>upstream = script [] (Inl err404), random = half, chromium = browser_ok\<rparr>"

definition env_down :: env where
  "env_down = \<lparr>upstream = script [] (Inl err503), random = half, chromium = browser_down\<rparr>"

definition env_page :: env where
  "env_page = \<lparr>upstream = script [] (Inr page), random = half, chromium = browser_ok\<rparr>"

definition env_empty_page :: env where
  "env_empty_page =
     \<lparr>upstream = script [] (Inr empty_page), random = half, chromium = browser_ok\<rparr>"

definition env_json_zero :: env where
  "env_json_zero =
     \<lparr>upstream = script [] (Inr json_zero), random = half, chromium = browser_ok\<rparr>"

definition cfg_direct :: config where
  "cfg_direct = \<lparr>MAX_RETRIES = 2, BACKOFF_BASE = 300, PLAYWRIGHT_FALLBACK = False\<rparr>"

definition cfg_fallback :: config where
  "cfg_fallback = \<lparr>MAX_RETRIES = 3, BACKOFF_BASE = 300, PLAYWRIGHT_FALLBACK = True\<rparr>"

section \<open>Properties\<close>

subsection \<open>Reading traces\<close>

lemma attempts_simps [simp]:
  "attempts [] = 0"
  "attempts (AxiosGet u # tr) = Suc (attempts tr)"
  "attempts (Sleep w # tr) = attempts tr"
  "attempts (CacheGet k # tr) = attempts tr"
  "attempts (LimitRun # tr) = attempts tr"
  "attempts (PlaywrightFetch u # tr) = attempts tr"
  "attempts (CacheSet k v # tr) = attempts tr"
  "attempts (tr @ tr') = attempts tr + attempts tr'"
  by (simp_all add: attempts_def)

lemma fallback_calls_simps [simp]:
  "fallback_calls [] = 0"
  "fallback_calls (AxiosGet u # tr) = fallback_calls tr"
  "fallback_calls (Sleep w # tr) = fallback_calls tr"
  "fallback_calls (CacheGet k # tr) = fallback_calls tr"
  "fallback_calls (LimitRun # tr) = fallback_calls tr"
  "fallback_calls (PlaywrightFetch u # tr) = Suc (fallback_calls tr)"
  "fallback_calls (CacheSet k v # tr) = fallback_calls tr"
  "fallback_calls (tr @ tr') = fallback_calls tr + fallback_calls tr'"
  by (simp_all add: fallback_calls_def)

lemma cache_writes_simps [simp]:
  "cache_writes [] = 0"
  "cache_writes (AxiosGet u # tr) = cache_writes tr"
  "cache_writes (Sleep w # tr) = cache_writes tr"
  "cache_writes (CacheGet k # tr) = cache_writes tr"
  "cache_writes (LimitRun # tr) = cache_writes tr"
  "cache_writes (PlaywrightFetch u # tr) = cache_writes tr"
  "cache_writes (CacheSet k v # tr) = Suc (cache_writes tr)"
  "cache_writes (tr @ tr') = cache_writes tr + cache_writes tr'"
  by (simp_all add: cache_writes_def)

subsection \<open>The retry loop, one iteration at a time\<close>

lemma isGateway_iff:
  "isGateway err \<longleftrightarrow>
     response err = None \<or> response err = Some 502 \<or> response err = Some 503
     \<or> response err = Some 504"
  by (auto simp: isGateway_def split: option.splits)

lemma retry_loop_success:
  "upstream e a = Inr res \<Longrightarrow> retry_loop e b u m a = (Inr res, [AxiosGet u])"
  by (subst retry_loop.simps) simp

lemma retry_loop_final:
  "upstream e a = Inl err \<Longrightarrow> \<not> isGateway err \<or> m < int (Suc a) \<Longrightarrow>
   retry_loop e b u m a = (Inl err, [AxiosGet u])"
  by (subst retry_loop.simps) auto

lemma retry_loop_retry:
  "upstream e a = Inl err \<Longrightarrow> isGateway err \<Longrightarrow> int (Suc a) \<le> m \<Longrightarrow>
   retry_loop e b u m a =
     (fst (retry_loop e b u m (Suc a)),
      AxiosGet u # Sleep (wait b (Suc a) (random e a)) # snd (retry_loop e b u m (Suc a)))"
  by (subst retry_loop.simps) (simp add: case_prod_beta)

lemma retry_loop_cases:
  obtains (success) res where "upstream e a = Inr res"
      "retry_loop e b u m a = (Inr res, [AxiosGet u])"
  | (final) err where "upstream e a = Inl err" "\<not> isGateway err \<or> m < int (Suc a)"
      "retry_loop e b u m a = (Inl err, [AxiosGet u])"
  | (retry) err where "upstream e a = Inl err" "isGateway err" "int (Suc a) \<le> m"
      "retry_loop e b u m a =
        (fst (retry_loop e b u m (Suc a)),
         AxiosGet u # Sleep (wait b (Suc a) (random e a)) # snd (retry_loop e b u m (Suc a)))"
proof (cases "upstream e a")
  case (Inr res)
  then show ?thesis using success retry_loop_success by blast
next
  case (Inl err)
  show ?thesis
  proof (cases "\<not> isGateway err \<or> m < int (Suc a)")
    case True
    then show ?thesis using final Inl retry_loop_final by blast
  next
    case False
    then have "isGateway err" "int (Suc a) \<le> m" by auto
    then show ?thesis using retry Inl retry_loop_retry by blast
  qed
qed

lemma retry_loop_attempts_pos: "1 \<le> attempts (snd (retry_loop e b u m a))"
  by (cases rule: retry_loop_cases [of e a b u m]) simp_all

lemma retry_loop_attempts_le:
  "attempts (snd (retry_loop e b u m a)) \<le> Suc (nat (m - int a))"
proof (induction e b u m a rule: retry_loop.induct)
  case (1 e b u m a)
  show ?case
  proof (cases rule: retry_loop_cases [of e a b u m])
    case (retry err)
    with "1.IH" [of err]
    have "attempts (snd (retry_loop e b u m (Suc a))) \<le> Suc (nat (m - int (Suc a)))"
      by simp
    with retry show ?thesis by simp
  qed simp_all
qed

lemma retry_loop_sleeps_length:
  "Suc (length (sleeps (snd (retry_loop e b u m a)))) = attempts (snd (retry_loop e b u m a))"
proof (induction e b u m a rule: retry_loop.induct)
  case (1 e b u m a)
  show ?case
  proof (cases rule: retry_loop_cases [of e a b u m])
    case (retry err)
    with "1.IH" [of err] show ?thesis by simp
  qed simp_all
qed

lemma retry_loop_length:
  "Suc (length (snd (retry_loop e b u m a))) = 2 * attempts (snd (retry_loop e b u m a))"
proof (induction e b u m a rule: retry_loop.induct)
  case (1 e b u m a)
  show ?case
  proof (cases rule: retry_loop_cases [of e a b u m])
    case (retry err)
    with "1.IH" [of err] show ?thesis by simp
  qed simp_all
qed

lemma retry_loop_result:
  "fst (retry_loop e b u m a) = upstream e (a + attempts (snd (retry_loop e b u m a)) - 1)"
proof (induction e b u m a rule: retry_loop.induct)
  case (1 e b u m a)
  show ?case
  proof (cases rule: retry_loop_cases [of e a b u m])
    case (retry err)
    with "1.IH" [of err] retry_loop_attempts_pos [of e b u m "Suc a"] show ?thesis by simp
  qed simp_all
qed

lemma retry_loop_earlier:
  "a \<le> i \<Longrightarrow> i < a + attempts (snd (retry_loop e b u m a)) - 1 \<Longrightarrow>
   \<exists>err. upstream e i = Inl err \<and> isGateway err \<and> int (Suc i) \<le> m"
proof (induction e b u m a rule: retry_loop.induct)
  case (1 e b u m a)
  show ?case
  proof (cases rule: retry_loop_cases [of e a b u m])
    case (retry err)
    show ?thesis
    proof (cases "i = a")
      case True
      with retry show ?thesis by simp
    next
      case False
      with "1.prems" retry
      have "Suc a \<le> i" "i < Suc a + attempts (snd (retry_loop e b u m (Suc a))) - 1"
        by simp_all
      with "1.IH" [of err] retry show ?thesis by simp
    qed
  qed (use "1.prems" in simp_all)
qed

lemma retry_loop_throws:
  "fst (retry_loop e b u m a) = Inl err \<Longrightarrow>
   \<not> isGateway err \<or> m < int (a + attempts (snd (retry_loop e b u m a)))"
proof (induction e b u m a rule: retry_loop.induct)
  case (1 e b u m a)
  show ?case
  proof (cases rule: retry_loop_cases [of e a b u m])
    case (retry err')
    with "1.IH" [of err'] "1.prems" show ?thesis by simp
  qed (use "1.prems" in auto)
qed


lemma retry_loop_quiet:
  "fallback_calls (snd (retry_loop e b u m a)) = 0 \<and>
   cache_writes (snd (retry_loop e b u m a)) = 0"
proof (induction e b u m a rule: retry_loop.induct)
  case (1 e b u m a)
  show ?case
  proof (cases rule: retry_loop_cases [of e a b u m])
    case (retry err)
    with "1.IH" [of err] show ?thesis by simp
  qed simp_all
qed

subsection \<open>Doubles\<close>

lemma pow2_powr: "pow2 k = 2 powr real_of_int k"
proof (cases "0 \<le> k")
  case True
  then have "2 powr real_of_int k = 2 powr real (nat k)" by simp
  also have "\<dots> = 2 ^ nat k" by (rule powr_realpow) simp
  finally show ?thesis using True by (simp add: pow2_def)
next
  case False
  then have "2 powr real_of_int k = 2 powr (- real (nat (- k)))" by simp
  also have "\<dots> = inverse (2 powr real (nat (- k)))" by (rule powr_minus)
  also have "2 powr real (nat (- k)) = 2 ^ nat (- k)" by (rule powr_realpow) simp
  finally show ?thesis using False by (simp add: pow2_def inverse_eq_divide)
qed

lemma pow2_pos: "0 < pow2 k"
  by (simp add: pow2_powr)

lemma pow2_add: "pow2 (a + b) = pow2 a * pow2 b"
  by (simp add: pow2_powr powr_add)

lemma pow2_nat: "pow2 (int n) = 2 ^ n"
  by (simp add: pow2_def)

lemma pow2_mono: "a \<le> b \<Longrightarrow> pow2 a \<le> pow2 b"
  by (simp add: pow2_powr)


lemma pow2_neg_nat: "pow2 (- int n) = 1 / 2 ^ n"
  by (cases n) (simp_all add: pow2_def nat_add_distrib)

lemma pow2_le_one: "k \<le> 0 \<Longrightarrow> pow2 k \<le> 1"
  using pow2_mono [of k 0] by (simp add: pow2_def)

lemma roundTiesToEven_of_int: "roundTiesToEven (of_int z) = z"
  by (simp add: roundTiesToEven_def)

lemma roundTiesToEven_le: "q \<le> of_int K \<Longrightarrow> roundTiesToEven q \<le> K"
proof -
  assume q: "q \<le> of_int K"
  then have f: "\<lfloor>q\<rfloor> \<le> K" by (simp add: floor_le_iff)
  show ?thesis
  proof (cases "\<lfloor>q\<rfloor> = K")
    case True
    with q have "q - of_int \<lfloor>q\<rfloor> \<le> 0" by simp
    then show ?thesis using True by (simp add: roundTiesToEven_def Let_def)
  next
    case False
    with f have "\<lfloor>q\<rfloor> + 1 \<le> K" by simp
    then show ?thesis by (simp add: roundTiesToEven_def Let_def)
  qed
qed

lemma roundTiesToEven_nonneg: "0 \<le> q \<Longrightarrow> 0 \<le> roundTiesToEven q"
  by (simp add: roundTiesToEven_def Let_def)

lemma binade_up_le: "y < 2 ^ Suc n \<Longrightarrow> binade_up y \<le> n"
proof (induction n arbitrary: y)
  case 0
  then show ?case by (subst binade_up.simps) simp
next
  case (Suc n)
  show ?case
  proof (cases "2 \<le> y")
    case True
    from Suc.prems have "y / 2 < 2 ^ Suc n" by simp
    from Suc.IH [OF this] True show ?thesis by (subst binade_up.simps) simp
  next
    case False
    then show ?thesis by (subst binade_up.simps) simp
  qed
qed


lemma binade_down_ge: "0 < y \<Longrightarrow> y < 1 / 2 ^ n \<Longrightarrow> Suc n \<le> binade_down y"
proof (induction n arbitrary: y)
  case 0
  then show ?case by (subst binade_down.simps) simp
next
  case (Suc n)
  have "pow2 (- int (Suc n)) \<le> 1" by (rule pow2_le_one) simp
  then have "1 / 2 ^ Suc n \<le> (1::real)" by (simp only: pow2_neg_nat)
  with Suc.prems have y1: "y < 1" by linarith
  from Suc.prems have "0 < 2 * y" "2 * y < 1 / 2 ^ n" by (simp_all add: field_simps)
  from Suc.IH [OF this] y1 Suc.prems(1) show ?case by (subst binade_down.simps) simp
qed



lemma exponent_le:
  assumes "x \<noteq> 0" and "\<bar>x\<bar> < pow2 (k + 1)"
  shows "exponent x \<le> k"
proof (cases "1 \<le> \<bar>x\<bar>")
  case True
  have k: "0 \<le> k"
  proof (rule ccontr)
    assume "\<not> 0 \<le> k"
    then have "pow2 (k + 1) \<le> 1" by (intro pow2_le_one) simp
    with assms(2) True show False by linarith
  qed
  with assms(2) have "\<bar>x\<bar> < 2 ^ Suc (nat k)" by (simp add: pow2_def nat_add_distrib)
  from binade_up_le [OF this] True k show ?thesis by (simp add: exponent_def)
next
  case small: False
  show ?thesis
  proof (cases "0 \<le> k")
    case True
    with small show ?thesis by (simp add: exponent_def)
  next
    case False
    define n where "n = nat (- k - 1)"
    with False have k1: "k + 1 = - int n" by simp
    from assms(2) have hi: "\<bar>x\<bar> < 1 / 2 ^ n" by (simp only: k1 pow2_neg_nat)
    from assms(1) have "0 < \<bar>x\<bar>" by simp
    from binade_down_ge [OF this hi] small k1 show ?thesis by (simp add: exponent_def)
  qed
qed

subsection \<open>Rounding to a double\<close>

lemma fl_exact:
  assumes "\<bar>m\<bar> < 2 ^ 53" and "- 1074 \<le> i"
  shows "fl (of_int m * pow2 i) = of_int m * pow2 i"
proof (cases "m = 0")
  case True
  then show ?thesis by (simp add: fl_def)
next
  case False
  let ?x = "of_int m * pow2 i"
  from False pow2_pos [of i] have x0: "?x \<noteq> 0" by simp
  have "\<bar>?x\<bar> = \<bar>real_of_int m\<bar> * pow2 i" using pow2_pos [of i] by (simp add: abs_mult)
  also have "\<dots> < 2 ^ 53 * pow2 i"
  proof -
    from assms(1) have "real_of_int \<bar>m\<bar> < real_of_int (2 ^ 53)" by (simp only: of_int_less_iff)
    then have "\<bar>real_of_int m\<bar> < 2 ^ 53" by simp
    with pow2_pos [of i] show ?thesis by (simp only: mult_strict_right_mono)
  qed
  also have "(2::real) ^ 53 * pow2 i = pow2 (52 + i + 1)"
    using pow2_add [of 53 i] pow2_nat [of 53] by (simp add: add.commute)
  finally have "exponent ?x \<le> 52 + i" using x0 by (intro exponent_le)
  with assms(2) have u: "max (exponent ?x - 52) (- 1074) \<le> i" by simp
  define u where "u = max (exponent ?x - 52) (- 1074)"
  define d where "d = nat (i - u)"
  from u have i: "i = u + int d" by (simp add: u_def d_def)
  have "?x / pow2 u = of_int m * 2 ^ d"
    using pow2_pos [of u] by (simp add: i pow2_add pow2_nat)
  also have "\<dots> = of_int (m * 2 ^ d)" by simp
  finally have "roundTiesToEven (?x / pow2 u) = m * 2 ^ d"
    by (simp only: roundTiesToEven_of_int)
  then have "of_int (roundTiesToEven (?x / pow2 u)) * pow2 u = ?x"
    by (simp add: i pow2_add pow2_nat)
  with x0 show ?thesis by (simp add: fl_def Let_def u_def)
qed

lemma fl_of_int: "\<bar>m\<bar> < 2 ^ 53 \<Longrightarrow> fl (of_int m) = of_int m"
  using fl_exact [of m 0] by (simp add: pow2_def)

lemma fl_jitter_range:
  assumes "0 \<le> x" and "x \<le> 200"
  shows "0 \<le> fl x \<and> fl x \<le> 200"
proof (cases "x = 0")
  case True
  then show ?thesis by (simp add: fl_def)
next
  case False
  define u where "u = max (exponent x - 52) (- 1074)"
  have "\<bar>x\<bar> < pow2 (7 + 1)" using assms by (simp add: pow2_def)
  with False have "exponent x \<le> 7" by (rule exponent_le)
  then have u: "u \<le> 0" by (simp add: u_def)
  define d where "d = nat (- u)"
  from u have ud: "u = - int d" by (simp add: d_def)
  have p: "pow2 u = 1 / 2 ^ d" by (simp only: ud pow2_neg_nat)
  have fl: "fl x = of_int (roundTiesToEven (x / pow2 u)) * pow2 u"
    using False by (simp add: fl_def Let_def u_def)
  from assms(1) pow2_pos [of u] have "0 \<le> x / pow2 u" by simp
  then have lo: "0 \<le> roundTiesToEven (x / pow2 u)" by (rule roundTiesToEven_nonneg)
  from assms(2) have "x / pow2 u \<le> of_int (200 * 2 ^ d)" by (simp add: p)
  then have hi: "roundTiesToEven (x / pow2 u) \<le> 200 * 2 ^ d" by (rule roundTiesToEven_le)
  from lo pow2_pos [of u] have "0 \<le> fl x" by (simp add: fl)
  moreover have "fl x \<le> 200"
  proof -
    from hi have "real_of_int (roundTiesToEven (x / pow2 u)) \<le> real_of_int (200 * 2 ^ d)"
      by (simp only: of_int_le_iff)
    then have "real_of_int (roundTiesToEven (x / pow2 u)) * pow2 u \<le> real_of_int (200 * 2 ^ d) * pow2 u"
      using pow2_pos [of u] by (simp only: mult_right_mono less_imp_le)
    also have "real_of_int (200 * 2 ^ d) * pow2 u = 200" by (simp add: p)
    finally show ?thesis by (simp only: fl)
  qed
  ultimately show ?thesis ..
qed

subsection \<open>The backoff arithmetic\<close>

lemma Math_round_of_int: "Math_round (of_int k) = k"
  by (simp add: Math_round_def)

text \<open>A base below \<open>2^53\<close> is a double, and so is its product with a power of two.\<close>

lemma backoff_exact:
  assumes "\<bar>base\<bar> < 2 ^ 53"
  shows "backoff base n = base * 2 ^ (n - 1)"
proof -
  have b: "fl (real_of_int base) = real_of_int base" using assms by (rule fl_of_int)
  have "fl (of_int 1 * pow2 (int (n - 1))) = of_int 1 * pow2 (int (n - 1))"
    by (rule fl_exact) simp_all
  then have p: "fl (2 ^ (n - 1)) = 2 ^ (n - 1)" by (simp add: pow2_nat)
  have "fl (of_int base * pow2 (int (n - 1))) = of_int base * pow2 (int (n - 1))"
    using assms by (rule fl_exact) simp
  then have "fl (real_of_int base * 2 ^ (n - 1)) = real_of_int (base * 2 ^ (n - 1))"
    by (simp add: pow2_nat)
  then show ?thesis unfolding backoff_def b p by (simp only: Math_round_of_int)
qed

lemma jitter_bounds: "0 \<le> r \<Longrightarrow> r < 1 \<Longrightarrow> 0 \<le> jitter r \<and> jitter r \<le> 200"
proof -
  assume "0 \<le> r" and "r < 1"
  then have "0 \<le> r * 200" "r * 200 \<le> 200" by simp_all
  from fl_jitter_range [OF this] show ?thesis
    unfolding jitter_def Math_round_def by (simp add: le_floor_iff floor_le_iff)
qed

text \<open>Where base, backoff and wait stay below \<open>2^53\<close> the sum is exact too.\<close>

lemma wait_exact:
  assumes "\<bar>base\<bar> * 2 ^ (n - 1) + 200 < 2 ^ 53" and "0 \<le> r" and "r < 1"
  shows "wait base n r = base * 2 ^ (n - 1) + jitter r"
proof -
  have "(1::int) \<le> 2 ^ (n - 1)" by simp
  then have "\<bar>base\<bar> * 1 \<le> \<bar>base\<bar> * 2 ^ (n - 1)" by (intro mult_left_mono) simp_all
  with assms(1) have base: "\<bar>base\<bar> < 2 ^ 53" by simp
  note j = jitter_bounds [OF assms(2,3)]
  have "\<bar>base * 2 ^ (n - 1)\<bar> = \<bar>base\<bar> * 2 ^ (n - 1)" by (simp add: abs_mult)
  moreover from j have "\<bar>jitter r\<bar> \<le> 200" by simp
  ultimately have "\<bar>base * 2 ^ (n - 1) + jitter r\<bar> \<le> \<bar>base\<bar> * 2 ^ (n - 1) + 200"
    using abs_triangle_ineq [of "base * 2 ^ (n - 1)" "jitter r"] by linarith
  with assms(1) have "\<bar>base * 2 ^ (n - 1) + jitter r\<bar> < 2 ^ 53" by simp
  then have "fl (real_of_int (base * 2 ^ (n - 1) + jitter r))
      = real_of_int (base * 2 ^ (n - 1) + jitter r)"
    by (rule fl_of_int)
  then have "\<lfloor>fl (real_of_int (base * 2 ^ (n - 1)) + real_of_int (jitter r))\<rfloor>
      = base * 2 ^ (n - 1) + jitter r"
    by (simp only: of_int_add [symmetric] floor_of_int)
  then show ?thesis by (simp only: wait_def backoff_exact [OF base])
qed

lemma jitter_half: "jitter (1 / 2) = 100"
proof -
  have "fl (real_of_int 100) = real_of_int 100" by (rule fl_of_int) simp
  then show ?thesis by (simp add: jitter_def Math_round_def)
qed

text \<open>\<open>511/512\<close> is a double and so is \<open>511/512 * 200 = 12775/64\<close>.\<close>

lemma jitter_near_one: "jitter (511 / 512) = 200"
proof -
  have a: "(511 / 512 * 200 :: real) = of_int 12775 * pow2 (- 6)" by (simp add: pow2_def)
  have "fl (511 / 512 * 200) = 511 / 512 * 200" unfolding a by (rule fl_exact) simp_all
  then have "jitter (511 / 512) = Math_round (511 / 512 * 200)" by (simp only: jitter_def)
  also have "\<dots> = 200" by (simp add: Math_round_def)
  finally show ?thesis .
qed

subsection \<open>The paths through fetchResultForRoll\<close>

lemma resolve_hit:
  "truthy (c (''ktu:roll:'' @ roll)) \<Longrightarrow>
   fetchResultForRoll cfg e c roll =
     (Success True (the (c (''ktu:roll:'' @ roll))) None, c, [CacheGet (''ktu:roll:'' @ roll)])"
  by (simp add: fetchResultForRoll_def Let_def)

lemma resolve_primary_ok:
  "\<not> truthy (c (''ktu:roll:'' @ roll)) \<Longrightarrow>
   fetchWithRetries e (BACKOFF_BASE cfg) (KTU_FETCH_URL_TEMPLATE roll) (MAX_RETRIES cfg)
     = (Inr resp, tr) \<Longrightarrow>
   fetchResultForRoll cfg e c roll =
     (Success False (data resp) (Some (headers_or_empty resp)),
      c(''ktu:roll:'' @ roll \<mapsto> data resp),
      [CacheGet (''ktu:roll:'' @ roll), LimitRun] @ tr
        @ [CacheSet (''ktu:roll:'' @ roll) (data resp)])"
  by (simp add: fetchResultForRoll_def Let_def)

lemma resolve_fallback_ok:
  "\<not> truthy (c (''ktu:roll:'' @ roll)) \<Longrightarrow>
   fetchWithRetries e (BACKOFF_BASE cfg) (KTU_FETCH_URL_TEMPLATE roll) (MAX_RETRIES cfg)
     = (Inl err, tr) \<Longrightarrow>
   PLAYWRIGHT_FALLBACK cfg \<Longrightarrow>
   playwrightFetch (chromium e) (KTU_FETCH_URL_TEMPLATE roll) = Inr pwResp \<Longrightarrow>
   fetchResultForRoll cfg e c roll =
     (Success False (data pwResp) (Some (headers_or_empty pwResp)),
      c(''ktu:roll:'' @ roll \<mapsto> data pwResp),
      [CacheGet (''ktu:roll:'' @ roll), LimitRun] @ tr
        @ [PlaywrightFetch (KTU_FETCH_URL_TEMPLATE roll),
           CacheSet (''ktu:roll:'' @ roll) (data pwResp)])"
  by (simp add: fetchResultForRoll_def Let_def)

lemma resolve_fallback_failed:
  "\<not> truthy (c (''ktu:roll:'' @ roll)) \<Longrightarrow>
   fetchWithRetries e (BACKOFF_BASE cfg) (KTU_FETCH_URL_TEMPLATE roll) (MAX_RETRIES cfg)
     = (Inl err, tr) \<Longrightarrow>
   PLAYWRIGHT_FALLBACK cfg \<Longrightarrow>
   playwrightFetch (chromium e) (KTU_FETCH_URL_TEMPLATE roll) = Inl pwErr \<Longrightarrow>
   fetchResultForRoll cfg e c roll =
     (Failure (reason pwErr), c,
      [CacheGet (''ktu:roll:'' @ roll), LimitRun] @ tr
        @ [PlaywrightFetch (KTU_FETCH_URL_TEMPLATE roll)])"
  by (simp add: fetchResultForRoll_def Let_def)

lemma resolve_direct_failed:
  "\<not> truthy (c (''ktu:roll:'' @ roll)) \<Longrightarrow>
   fetchWithRetries e (BACKOFF_BASE cfg) (KTU_FETCH_URL_TEMPLATE roll) (MAX_RETRIES cfg)
     = (Inl err, tr) \<Longrightarrow>
   \<not> PLAYWRIGHT_FALLBACK cfg \<Longrightarrow>
   fetchResultForRoll cfg e c roll =
     (Failure (reason err), c, [CacheGet (''ktu:roll:'' @ roll), LimitRun] @ tr)"
  by (simp add: fetchResultForRoll_def Let_def)

lemma playwrightFetch_headers:
  "playwrightFetch b url = Inr pwResp \<Longrightarrow>
   headers_or_empty pwResp = [(''x-playwright-fallback'', ''1'')]"
  by (auto simp: playwrightFetch_def headers_or_empty_def split: option.splits sum.splits)

lemma fetchWithRetries_trace:
  "fetchWithRetries e b u m = (r, tr) \<Longrightarrow>
   1 \<le> attempts tr \<and> fallback_calls tr = 0 \<and> cache_writes tr = 0"
  using retry_loop_attempts_pos [of e b u m 0] retry_loop_quiet [of e b u m 0]
  by (simp add: fetchWithRetries_def)

text \<open>Every call takes exactly one of the five paths.\<close>

lemma resolve_cases:
  obtains (hit) "truthy (c (''ktu:roll:'' @ roll))"
      "fetchResultForRoll cfg e c roll =
        (Success True (the (c (''ktu:roll:'' @ roll))) None, c,
         [CacheGet (''ktu:roll:'' @ roll)])"
  | (primary_ok) resp tr where "\<not> truthy (c (''ktu:roll:'' @ roll))"
      "fetchWithRetries e (BACKOFF_BASE cfg) (KTU_FETCH_URL_TEMPLATE roll) (MAX_RETRIES cfg)
        = (Inr resp, tr)"
      "fetchResultForRoll cfg e c roll =
        (Success False (data resp) (Some (headers_or_empty resp)),
         c(''ktu:roll:'' @ roll \<mapsto> data resp),
         [CacheGet (''ktu:roll:'' @ roll), LimitRun] @ tr
           @ [CacheSet (''ktu:roll:'' @ roll) (data resp)])"
  | (fallback_ok) err tr pwResp where "\<not> truthy (c (''ktu:roll:'' @ roll))"
      "fetchWithRetries e (BACKOFF_BASE cfg) (KTU_FETCH_URL_TEMPLATE roll) (MAX_RETRIES cfg)
        = (Inl err, tr)"
      "PLAYWRIGHT_FALLBACK cfg"
      "playwrightFetch (chromium e) (KTU_FETCH_URL_TEMPLATE roll) = Inr pwResp"
      "fetchResultForRoll cfg e c roll =
        (Success False (data pwResp) (Some (headers_or_empty pwResp)),
         c(''ktu:roll:'' @ roll \<mapsto> data pwResp),
         [CacheGet (''ktu:roll:'' @ roll), LimitRun] @ tr
           @ [PlaywrightFetch (KTU_FETCH_URL_TEMPLATE roll),
              CacheSet (''ktu:roll:'' @ roll) (data pwResp)])"
  | (fallback_failed) err tr pwErr where "\<not> truthy (c (''ktu:roll:'' @ roll))"
      "fetchWithRetries e (BACKOFF_BASE cfg) (KTU_FETCH_URL_TEMPLATE roll) (MAX_RETRIES cfg)
        = (Inl err, tr)"
      "PLAYWRIGHT_FALLBACK cfg"
      "playwrightFetch (chromium e) (KTU_FETCH_URL_TEMPLATE roll) = Inl pwErr"
      "fetchResultForRoll cfg e c roll =
        (Failure (reason pwErr), c,
         [CacheGet (''ktu:roll:'' @ roll), LimitRun] @ tr
           @ [PlaywrightFetch (KTU_FETCH_URL_TEMPLATE roll)])"
  | (direct_failed) err tr where "\<not> truthy (c (''ktu:roll:'' @ roll))"
      "fetchWithRetries e (BACKOFF_BASE cfg) (KTU_FETCH_URL_TEMPLATE roll) (MAX_RETRIES cfg)
        = (Inl err, tr)"
      "\<not> PLAYWRIGHT_FALLBACK cfg"
      "fetchResultForRoll cfg e c roll =
        (Failure (reason err), c, [CacheGet (''ktu:roll:'' @ roll), LimitRun] @ tr)"
proof (cases "truthy (c (''ktu:roll:'' @ roll))")
  case True
  then show ?thesis using hit resolve_hit by blast
next
  case miss: False
  obtain r tr where run:
    "fetchWithRetries e (BACKOFF_BASE cfg) (KTU_FETCH_URL_TEMPLATE roll) (MAX_RETRIES cfg)
      = (r, tr)"
    by (cases "fetchWithRetries e (BACKOFF_BASE cfg) (KTU_FETCH_URL_TEMPLATE roll)
                 (MAX_RETRIES cfg)") blast
  show ?thesis
  proof (cases r)
    case (Inr resp)
    with miss run show ?thesis using primary_ok resolve_primary_ok by blast
  next
    case (Inl err)
    show ?thesis
    proof (cases "PLAYWRIGHT_FALLBACK cfg")
      case False
      with miss run Inl show ?thesis using direct_failed resolve_direct_failed by blast
    next
      case True
      show ?thesis
      proof (cases "playwrightFetch (chromium e) (KTU_FETCH_URL_TEMPLATE roll)")
        case (Inr pwResp)
        with miss run Inl True show ?thesis using fallback_ok resolve_fallback_ok by blast
      next
        case (Inl pwErr)
        with miss run \<open>r = Inl err\<close> True show ?thesis
          using fallback_failed resolve_fallback_failed by blast
      qed
    qed
  qed
qed

text \<open>The same, read from a given result.\<close>

lemma resolve_elim:
  assumes "fetchResultForRoll cfg e c roll = (r, c', tr)"
  obtains (hit) v where "c (''ktu:roll:'' @ roll) = Some v" "truthy (Some v)"
      "r = Success True v None" "c' = c" "tr = [CacheGet (''ktu:roll:'' @ roll)]"
  | (primary_ok) resp tr1 where "\<not> truthy (c (''ktu:roll:'' @ roll))"
      "fetchWithRetries e (BACKOFF_BASE cfg) (KTU_FETCH_URL_TEMPLATE roll) (MAX_RETRIES cfg)
        = (Inr resp, tr1)"
      "r = Success False (data resp) (Some (headers_or_empty resp))"
      "c' = c(''ktu:roll:'' @ roll \<mapsto> data resp)"
      "tr = [CacheGet (''ktu:roll:'' @ roll), LimitRun] @ tr1
              @ [CacheSet (''ktu:roll:'' @ roll) (data resp)]"
  | (fallback_ok) err tr1 pwResp where "\<not> truthy (c (''ktu:roll:'' @ roll))"
      "fetchWithRetries e (BACKOFF_BASE cfg) (KTU_FETCH_URL_TEMPLATE roll) (MAX_RETRIES cfg)
        = (Inl err, tr1)"
      "PLAYWRIGHT_FALLBACK cfg"
      "playwrightFetch (chromium e) (KTU_FETCH_URL_TEMPLATE roll) = Inr pwResp"
      "r = Success False (data pwResp) (Some [(''x-playwright-fallback'', ''1'')])"
      "c' = c(''ktu:roll:'' @ roll \<mapsto> data pwResp)"
      "tr = [CacheGet (''ktu:roll:'' @ roll), LimitRun] @ tr1
              @ [PlaywrightFetch (KTU_FETCH_URL_TEMPLATE roll),
                 CacheSet (''ktu:roll:'' @ roll) (data pwResp)]"
  | (fallback_failed) err tr1 pwErr where "\<not> truthy (c (''ktu:roll:'' @ roll))"
      "fetchWithRetries e (BACKOFF_BASE cfg) (KTU_FETCH_URL_TEMPLATE roll) (MAX_RETRIES cfg)
        = (Inl err, tr1)"
      "PLAYWRIGHT_FALLBACK cfg"
      "playwrightFetch (chromium e) (KTU_FETCH_URL_TEMPLATE roll) = Inl pwErr"
      "r = Failure (reason pwErr)" "c' = c"
      "tr = [CacheGet (''ktu:roll:'' @ roll), LimitRun] @ tr1
              @ [PlaywrightFetch (KTU_FETCH_URL_TEMPLATE roll)]"
  | (direct_failed) err tr1 where "\<not> truthy (c (''ktu:roll:'' @ roll))"
      "fetchWithRetries e (BACKOFF_BASE cfg) (KTU_FETCH_URL_TEMPLATE roll) (MAX_RETRIES cfg)
        = (Inl err, tr1)"
      "\<not> PLAYWRIGHT_FALLBACK cfg"
      "r = Failure (reason err)" "c' = c"
      "tr = [CacheGet (''ktu:roll:'' @ roll), LimitRun] @ tr1"
proof (cases rule: resolve_cases [of c roll cfg e])
  case hit': hit
  then obtain v where v: "c (''ktu:roll:'' @ roll) = Some v" "truthy (Some v)"
    by (cases "c (''ktu:roll:'' @ roll)") simp_all
  from assms [unfolded hit'(2)] v
  have "r = Success True v None" "c' = c" "tr = [CacheGet (''ktu:roll:'' @ roll)]"
    by auto
  with v show ?thesis by (rule hit)
next
  case ok: (primary_ok resp tr1)
  from assms [unfolded ok(3)]
  have "r = Success False (data resp) (Some (headers_or_empty resp))"
    "c' = c(''ktu:roll:'' @ roll \<mapsto> data resp)"
    "tr = [CacheGet (''ktu:roll:'' @ roll), LimitRun] @ tr1
            @ [CacheSet (''ktu:roll:'' @ roll) (data resp)]"
    by auto
  with ok(1,2) show ?thesis by (rule primary_ok)
next
  case fb: (fallback_ok err tr1 pwResp)
  from assms [unfolded fb(5)] playwrightFetch_headers [OF fb(4)]
  have "r = Success False (data pwResp) (Some [(''x-playwright-fallback'', ''1'')])"
    "c' = c(''ktu:roll:'' @ roll \<mapsto> data pwResp)"
    "tr = [CacheGet (''ktu:roll:'' @ roll), LimitRun] @ tr1
              @ [PlaywrightFetch (KTU_FETCH_URL_TEMPLATE roll),
                 CacheSet (''ktu:roll:'' @ roll) (data pwResp)]"
    by auto
  with fb(1-4) show ?thesis by (rule fallback_ok)
next
  case ff: (fallback_failed err tr1 pwErr)
  from assms [unfolded ff(5)]
  have "r = Failure (reason pwErr)" "c' = c"
    "tr = [CacheGet (''ktu:roll:'' @ roll), LimitRun] @ tr1
              @ [PlaywrightFetch (KTU_FETCH_URL_TEMPLATE roll)]"
    by auto
  with ff(1-4) show ?thesis by (rule fallback_failed)
next
  case df: (direct_failed err tr1)
  from assms [unfolded df(4)]
  have "r = Failure (reason err)" "c' = c"
    "tr = [CacheGet (''ktu:roll:'' @ roll), LimitRun] @ tr1"
    by auto
  with df(1-3) show ?thesis by (rule direct_failed)
qed

text \<open>On a miss the upstream is called and the answer is not from the cache.\<close>

lemma resolve_miss:
  assumes "\<not> truthy (c (''ktu:roll:'' @ roll))"
  shows "1 \<le> attempts (snd (snd (fetchResultForRoll cfg e c roll)))
    \<and> (\<forall>b h. fst (fetchResultForRoll cfg e c roll) \<noteq> Success True b h)"
proof -
  obtain r c' tr where eq: "fetchResultForRoll cfg e c roll = (r, c', tr)"
    by (cases "fetchResultForRoll cfg e c roll") blast
  from eq show ?thesis
  proof (cases rule: resolve_elim)
    case (hit v)
    with assms show ?thesis by simp
  next
    case (primary_ok resp tr1)
    with eq fetchWithRetries_trace [OF primary_ok(2)] show ?thesis by simp
  next
    case (fallback_ok err tr1 pwResp)
    with eq fetchWithRetries_trace [OF fallback_ok(2)] show ?thesis by simp
  next
    case (fallback_failed err tr1 pwErr)
    with eq fetchWithRetries_trace [OF fallback_failed(2)] show ?thesis by simp
  next
    case (direct_failed err tr1)
    with eq fetchWithRetries_trace [OF direct_failed(2)] show ?thesis by simp
  qed
qed

text \<open>
  What a result tells about the cache. An answer from the cache is the cached body without
  a \<open>headers\<close> field, and nothing but the look-up happened. A successful answer that is
  not from the cache has a \<open>headers\<close> field and comes after at least one call of the
  upstream; the one cache write of the request stored its body, and only that, under the
  key. When that body is truthy, the next request is answered from the entry.
\<close>

lemma cache_holds_body_only:
  assumes "fetchResultForRoll cfg e c roll = (r, c', tr)"
  shows "(\<forall>b h. r = Success True b h \<longrightarrow>
            h = None \<and> c (''ktu:roll:'' @ roll) = Some b \<and> c' = c \<and>
            tr = [CacheGet (''ktu:roll:'' @ roll)])
    \<and> (\<forall>b h. r = Success False b h \<longrightarrow>
            (\<exists>hs. h = Some hs) \<and> 1 \<le> attempts tr \<and> cache_writes tr = 1 \<and>
            last tr = CacheSet (''ktu:roll:'' @ roll) b \<and>
            c' = c(''ktu:roll:'' @ roll \<mapsto> b))
    \<and> (\<forall>b h. r = Success False b h \<and> truthy (Some b) \<longrightarrow>
            (\<forall>cfg2 e2. fetchResultForRoll cfg2 e2 c' roll =
               (Success True b None, c', [CacheGet (''ktu:roll:'' @ roll)])))"
  using assms
proof (cases rule: resolve_elim)
  case (hit v)
  then show ?thesis by simp
next
  case (primary_ok resp tr1)
  have "fetchResultForRoll cfg2 e2 (c(''ktu:roll:'' @ roll \<mapsto> data resp)) roll =
      (Success True (data resp) None, c(''ktu:roll:'' @ roll \<mapsto> data resp),
       [CacheGet (''ktu:roll:'' @ roll)])" if "truthy (Some (data resp))" for cfg2 e2
    using that resolve_hit [of "c(''ktu:roll:'' @ roll \<mapsto> data resp)" roll cfg2 e2] by simp
  with primary_ok fetchWithRetries_trace [OF primary_ok(2)] show ?thesis by simp
next
  case (fallback_ok err tr1 pwResp)
  have "fetchResultForRoll cfg2 e2 (c(''ktu:roll:'' @ roll \<mapsto> data pwResp)) roll =
      (Success True (data pwResp) None, c(''ktu:roll:'' @ roll \<mapsto> data pwResp),
       [CacheGet (''ktu:roll:'' @ roll)])" if "truthy (Some (data pwResp))" for cfg2 e2
    using that resolve_hit [of "c(''ktu:roll:'' @ roll \<mapsto> data pwResp)" roll cfg2 e2]
    by simp
  with fallback_ok fetchWithRetries_trace [OF fallback_ok(2)] show ?thesis by simp
next
  case (fallback_failed err tr1 pwErr)
  then show ?thesis by simp
next
  case (direct_failed err tr1)
  then show ?thesis by simp
qed

subsection \<open>Evaluation on concrete inputs\<close>

lemmas concrete_defs =
  err503_def err404_def err_timeout_def err_browser_def page_def empty_page_def
  browser_ok_def browser_down_def script_def half_def near_one_def
  env_503_def env_503_late_jitter_def env_recovers_def env_404_def env_down_def
  env_page_def env_empty_page_def env_json_zero_def json_zero_def cfg_direct_def cfg_fallback_def

lemmas run_defs =
  fetchWithRetries_def retry_loop.simps isGateway_def wait_exact jitter_half jitter_near_one
  attempts_def fallback_calls_def cache_writes_def

lemmas resolve_defs =
  fetchResultForRoll_def KTU_FETCH_URL_TEMPLATE_def encodeURIComponent_def unreserved_def
  playwrightFetch_def headers_or_empty_def reason_def Let_def

section \<open>The claims\<close>

subsection \<open>The retry loop\<close>

text \<open>
  C1. With \<open>maxRetries = 3\<close>: when the first four calls fail with a gateway-like error
  (no response, or status 502, 503 or 504), \<open>fetchWithRetries\<close> makes exactly four calls
  and throws the fourth error; when the first two calls fail so and the third succeeds, it
  makes exactly three calls and returns that response. With \<open>maxRetries = 0\<close> it makes
  exactly one call, whatever the upstream does, waits never, and ends with the outcome of
  that call.
\<close>

theorem retry_counts:
  "(upstream e 0 = Inl e0 \<and> isGateway e0 \<and> upstream e 1 = Inl e1 \<and> isGateway e1 \<and>
    upstream e 2 = Inl e2 \<and> isGateway e2 \<and> upstream e 3 = Inl e3 \<and> isGateway e3 \<longrightarrow>
      fst (fetchWithRetries e base url 3) = Inl e3 \<and>
      attempts (snd (fetchWithRetries e base url 3)) = 4 \<and>
      length (sleeps (snd (fetchWithRetries e base url 3))) = 3)
   \<and> (upstream e 0 = Inl e0 \<and> isGateway e0 \<and> upstream e 1 = Inl e1 \<and> isGateway e1 \<and>
      upstream e 2 = Inr res \<longrightarrow>
      fst (fetchWithRetries e base url 3) = Inr res \<and>
      attempts (snd (fetchWithRetries e base url 3)) = 3 \<and>
      length (sleeps (snd (fetchWithRetries e base url 3))) = 2)
   \<and> (fst (fetchWithRetries e base url 0) = upstream e 0 \<and>
      attempts (snd (fetchWithRetries e base url 0)) = 1 \<and>
      sleeps (snd (fetchWithRetries e base url 0)) = [])"
proof (intro conjI impI)
  assume four: "upstream e 0 = Inl e0 \<and> isGateway e0 \<and> upstream e 1 = Inl e1 \<and> isGateway e1 \<and>
    upstream e 2 = Inl e2 \<and> isGateway e2 \<and> upstream e 3 = Inl e3 \<and> isGateway e3"
  have s3: "retry_loop e base url 3 3 = (Inl e3, [AxiosGet url])"
    using four by (simp add: retry_loop_final)
  have s2: "retry_loop e base url 3 2 =
      (Inl e3, [AxiosGet url, Sleep (wait base 3 (random e 2)), AxiosGet url])"
    using four retry_loop_retry [of e 2 e2 3 base url] s3
    by (simp add: numeral_3_eq_3 numeral_2_eq_2)
  have s1: "retry_loop e base url 3 1 =
      (Inl e3, [AxiosGet url, Sleep (wait base 2 (random e 1)),
                AxiosGet url, Sleep (wait base 3 (random e 2)), AxiosGet url])"
    using four retry_loop_retry [of e 1 e1 3 base url] s2
    by (simp add: numeral_2_eq_2)
  have s0: "retry_loop e base url 3 0 =
      (Inl e3, [AxiosGet url, Sleep (wait base 1 (random e 0)),
                AxiosGet url, Sleep (wait base 2 (random e 1)),
                AxiosGet url, Sleep (wait base 3 (random e 2)), AxiosGet url])"
    using four retry_loop_retry [of e 0 e0 3 base url] s1 by simp
  show "fst (fetchWithRetries e base url 3) = Inl e3"
    by (simp add: fetchWithRetries_def s0)
  show "attempts (snd (fetchWithRetries e base url 3)) = 4"
    by (simp add: fetchWithRetries_def s0)
  show "length (sleeps (snd (fetchWithRetries e base url 3))) = 3"
    by (simp add: fetchWithRetries_def s0)
next
  assume two: "upstream e 0 = Inl e0 \<and> isGateway e0 \<and> upstream e 1 = Inl e1 \<and> isGateway e1 \<and>
    upstream e 2 = Inr res"
  have s2: "retry_loop e base url 3 2 = (Inr res, [AxiosGet url])"
    using two by (simp add: retry_loop_success)
  have s1: "retry_loop e base url 3 1 =
      (Inr res, [AxiosGet url, Sleep (wait base 2 (random e 1)), AxiosGet url])"
    using two retry_loop_retry [of e 1 e1 3 base url] s2
    by (simp add: numeral_2_eq_2)
  have s0: "retry_loop e base url 3 0 =
      (Inr res, [AxiosGet url, Sleep (wait base 1 (random e 0)),
                 AxiosGet url, Sleep (wait base 2 (random e 1)), AxiosGet url])"
    using two retry_loop_retry [of e 0 e0 3 base url] s1 by simp
  show "fst (fetchWithRetries e base url 3) = Inr res"
    by (simp add: fetchWithRetries_def s0)
  show "attempts (snd (fetchWithRetries e base url 3)) = 3"
    by (simp add: fetchWithRetries_def s0)
  show "length (sleeps (snd (fetchWithRetries e base url 3))) = 2"
    by (simp add: fetchWithRetries_def s0)
next
  have one: "retry_loop e base url 0 0 = (upstream e 0, [AxiosGet url])"
    by (cases "upstream e 0") (simp_all add: retry_loop_success retry_loop_final)
  show "fst (fetchWithRetries e base url 0) = upstream e 0"
    by (simp add: fetchWithRetries_def one)
  show "attempts (snd (fetchWithRetries e base url 0)) = 1"
    by (simp add: fetchWithRetries_def one)
  show "sleeps (snd (fetchWithRetries e base url 0)) = []"
    by (simp add: fetchWithRetries_def one)
qed

theorem retry_counts_witness:
  "(upstream env_503 0 = Inl err503 \<and> isGateway err503 \<and>
    upstream env_503 1 = Inl err503 \<and> upstream env_503 2 = Inl err503 \<and>
    upstream env_503 3 = Inl err503 \<and>
    fst (fetchWithRetries env_503 300 ''u'' 3) = Inl err503 \<and>
    attempts (snd (fetchWithRetries env_503 300 ''u'' 3)) = 4)
   \<and> (upstream env_recovers 0 = Inl err503 \<and> upstream env_recovers 1 = Inl err_timeout \<and>
      isGateway err_timeout \<and> upstream env_recovers 2 = Inr page \<and>
      fst (fetchWithRetries env_recovers 300 ''u'' 3) = Inr page \<and>
      attempts (snd (fetchWithRetries env_recovers 300 ''u'' 3)) = 3)
   \<and> attempts (snd (fetchWithRetries env_404 300 ''u'' 0)) = 1"
proof -
  have up: "upstream env_503 0 = Inl err503" "upstream env_503 1 = Inl err503"
    "upstream env_503 2 = Inl err503" "upstream env_503 3 = Inl err503"
    "upstream env_recovers 0 = Inl err503" "upstream env_recovers 1 = Inl err_timeout"
    "upstream env_recovers 2 = Inr page"
    by (simp_all add: env_503_def env_recovers_def script_def)
  have gw: "isGateway err503" "isGateway err_timeout"
    by (simp_all add: isGateway_def err503_def err_timeout_def)
  show ?thesis
    using up gw
      retry_counts [of env_503 err503 err503 err503 err503 300 "''u''" page]
      retry_counts [of env_recovers err503 err_timeout err503 err503 300 "''u''" page]
      retry_counts [of env_404 err503 err503 err503 err503 300 "''u''" page]
    by simp
qed

text \<open>
  C5. When the first call fails with a response whose status is not 502, 503 or 504
  (404, say), \<open>fetchWithRetries\<close> makes exactly that one call, waits never and throws that
  very error; on a cache miss with the fallback switched off, \<open>fetchResultForRoll\<close> then
  fails with the reason of that error.
\<close>

theorem terminal_status_not_retried:
  assumes "upstream e 0 = Inl err" and "response err = Some status"
    and "status \<notin> {502, 503, 504}"
  shows "fetchWithRetries e base url maxRetries = (Inl err, [AxiosGet url])
    \<and> attempts (snd (fetchWithRetries e base url maxRetries)) = 1
    \<and> sleeps (snd (fetchWithRetries e base url maxRetries)) = []
    \<and> (\<not> truthy (c (''ktu:roll:'' @ roll)) \<and> \<not> PLAYWRIGHT_FALLBACK cfg \<longrightarrow>
         fetchResultForRoll cfg e c roll =
           (Failure (reason err), c,
            [CacheGet (''ktu:roll:'' @ roll), LimitRun,
             AxiosGet (KTU_FETCH_URL_TEMPLATE roll)]))"
proof -
  from assms(2,3) have "\<not> isGateway err" by (simp add: isGateway_def)
  with assms(1) have run: "\<And>b u m. fetchWithRetries e b u m = (Inl err, [AxiosGet u])"
    by (simp add: fetchWithRetries_def retry_loop_final)
  show ?thesis
    using run resolve_direct_failed [of c roll e cfg err "[AxiosGet (KTU_FETCH_URL_TEMPLATE roll)]"]
    by simp
qed

theorem terminal_status_not_retried_witness:
  "upstream env_404 0 = Inl err404 \<and> response err404 = Some 404
   \<and> fetchWithRetries env_404 300 ''u'' 5 = (Inl err404, [AxiosGet ''u''])
   \<and> fetchResultForRoll cfg_direct env_404 Map.empty ''R1'' =
       (Failure ''Request failed with status code 404'', Map.empty,
        [CacheGet ''ktu:roll:R1'', LimitRun, AxiosGet ''https://ktu.edu.in/results?roll=R1''])"
proof -
  have h: "upstream env_404 0 = Inl err404" "response err404 = Some 404"
    "(404::nat) \<notin> {502, 503, 504}"
    by (simp_all add: env_404_def script_def err404_def)
  have url: "KTU_FETCH_URL_TEMPLATE ''R1'' = ''https://ktu.edu.in/results?roll=R1''"
    by (simp add: KTU_FETCH_URL_TEMPLATE_def encodeURIComponent_def unreserved_def)
  have r: "reason err404 = ''Request failed with status code 404''"
    by (simp add: reason_def err404_def)
  have cfg: "\<not> PLAYWRIGHT_FALLBACK cfg_direct" by (simp add: cfg_direct_def)
  show ?thesis
    using h url r cfg
      terminal_status_not_retried [OF h, of 300 "''u''" 5 Map.empty "''R1''" cfg_direct]
    by simp
qed

text \<open>
  C9. For a nonnegative \<open>maxRetries\<close> and any upstream, the loop ends after at most
  \<open>maxRetries + 1\<close> calls (the recursion is well-founded: the termination proof of
  \<open>retry_loop\<close>). It ends with the outcome of its last call: all earlier calls failed
  with a gateway-like error; the last one is the first success, or an error that is
  thrown because it is not gateway-like or because the budget is used up. Between two
  calls there is exactly one wait.
\<close>

theorem retry_loop_terminates_within_budget:
  assumes "0 \<le> maxRetries"
  shows "\<exists>r tr n. fetchWithRetries e base url maxRetries = (r, tr) \<and> n = attempts tr
    \<and> 1 \<le> n \<and> int n \<le> maxRetries + 1
    \<and> r = upstream e (n - 1)
    \<and> (\<forall>i<n - 1. \<exists>err. upstream e i = Inl err \<and> isGateway err)
    \<and> (\<forall>err. r = Inl err \<longrightarrow> \<not> isGateway err \<or> int n = maxRetries + 1)
    \<and> length (sleeps tr) = n - 1 \<and> length tr = 2 * n - 1"
proof -
  let ?p = "retry_loop e base url maxRetries 0"
  let ?n = "attempts (snd ?p)"
  have pos: "1 \<le> ?n" by (rule retry_loop_attempts_pos)
  have le: "int ?n \<le> maxRetries + 1"
    using retry_loop_attempts_le [of e base url maxRetries 0] assms by simp
  have res: "fst ?p = upstream e (?n - 1)"
    using retry_loop_result [of e base url maxRetries 0] by simp
  have earlier: "\<forall>i<?n - 1. \<exists>err. upstream e i = Inl err \<and> isGateway err"
    using retry_loop_earlier [of 0 _ e base url maxRetries] by auto
  have thrown: "\<forall>err. fst ?p = Inl err \<longrightarrow> \<not> isGateway err \<or> int ?n = maxRetries + 1"
    using retry_loop_throws [of e base url maxRetries 0] le by auto
  have sl: "length (sleeps (snd ?p)) = ?n - 1"
    using retry_loop_sleeps_length [of e base url maxRetries 0] by simp
  have len: "length (snd ?p) = 2 * ?n - 1"
    using retry_loop_length [of e base url maxRetries 0] by simp
  have "fetchWithRetries e base url maxRetries = (fst ?p, snd ?p)"
    by (simp add: fetchWithRetries_def)
  with pos le res earlier thrown sl len show ?thesis by blast
qed

theorem retry_loop_terminates_within_budget_witness:
  "(0::int) \<le> 2 \<and>
   (\<exists>r tr n. fetchWithRetries env_503 300 ''u'' 2 = (r, tr) \<and> n = attempts tr
    \<and> 1 \<le> n \<and> int n \<le> 2 + 1
    \<and> r = upstream env_503 (n - 1)
    \<and> (\<forall>i<n - 1. \<exists>err. upstream env_503 i = Inl err \<and> isGateway err)
    \<and> (\<forall>err. r = Inl err \<longrightarrow> \<not> isGateway err \<or> int n = 2 + 1)
    \<and> length (sleeps tr) = n - 1 \<and> length tr = 2 * n - 1)
   \<and> attempts (snd (fetchWithRetries env_503 300 ''u'' 2)) = 3"
proof -
  have h: "(0::int) \<le> 2" by simp
  have run: "attempts (snd (fetchWithRetries env_503 300 ''u'' 2)) = 3"
    by (simp add: run_defs concrete_defs)
  show ?thesis
    using h run retry_loop_terminates_within_budget [OF h, of env_503 300 "''u''"]
    by simp
qed




subsection \<open>The fallback\<close>

text \<open>
  C2 (as amended). \<open>playwrightFetch\<close> is called at most once per request, and exactly
  when the fallback is switched on, the cache missed and \<open>fetchWithRetries\<close> threw;
  the call comes after all direct calls, and the error thrown is either not gateway-like
  (thrown at once, whatever is left of the budget) or gateway-like with the budget used
  up. With the fallback switched off, \<open>playwrightFetch\<close> is never called and a failure
  of \<open>fetchWithRetries\<close> is returned with its own reason.
\<close>

theorem fallback_after_primary_failure:
  assumes "fetchResultForRoll cfg e c roll = (r, c', tr)"
  shows "fallback_calls tr \<le> 1
    \<and> (fallback_calls tr = 1 \<longleftrightarrow>
         PLAYWRIGHT_FALLBACK cfg \<and> \<not> truthy (c (''ktu:roll:'' @ roll)) \<and>
         (\<exists>err. fst (fetchWithRetries e (BACKOFF_BASE cfg) (KTU_FETCH_URL_TEMPLATE roll)
                     (MAX_RETRIES cfg)) = Inl err))
    \<and> (fallback_calls tr = 1 \<longrightarrow>
         (\<exists>err tr1 rest.
            fetchWithRetries e (BACKOFF_BASE cfg) (KTU_FETCH_URL_TEMPLATE roll)
              (MAX_RETRIES cfg) = (Inl err, tr1) \<and>
            (\<not> isGateway err \<or> MAX_RETRIES cfg < int (attempts tr1)) \<and>
            tr = [CacheGet (''ktu:roll:'' @ roll), LimitRun] @ tr1
                   @ PlaywrightFetch (KTU_FETCH_URL_TEMPLATE roll) # rest \<and>
            attempts rest = 0))
    \<and> (\<not> PLAYWRIGHT_FALLBACK cfg \<longrightarrow>
         fallback_calls tr = 0 \<and>
         (\<forall>err. \<not> truthy (c (''ktu:roll:'' @ roll)) \<and>
            fst (fetchWithRetries e (BACKOFF_BASE cfg) (KTU_FETCH_URL_TEMPLATE roll)
                  (MAX_RETRIES cfg)) = Inl err \<longrightarrow> r = Failure (reason err)))"
proof -
  have thrown: "\<not> isGateway err \<or> MAX_RETRIES cfg < int (attempts tr1)"
    if "fetchWithRetries e (BACKOFF_BASE cfg) (KTU_FETCH_URL_TEMPLATE roll) (MAX_RETRIES cfg)
          = (Inl err, tr1)" for err tr1
    using that
      retry_loop_throws [of e "BACKOFF_BASE cfg" "KTU_FETCH_URL_TEMPLATE roll"
        "MAX_RETRIES cfg" 0 err]
    by (simp add: fetchWithRetries_def)
  show ?thesis
  proof (cases rule: resolve_cases [of c roll cfg e])
    case hit
    with assms show ?thesis by auto
  next
    case (primary_ok resp tr1)
    with assms fetchWithRetries_trace [OF primary_ok(2)] show ?thesis by auto
  next
    case (fallback_ok err tr1 pwResp)
    have "tr = [CacheGet (''ktu:roll:'' @ roll), LimitRun] @ tr1
             @ PlaywrightFetch (KTU_FETCH_URL_TEMPLATE roll)
               # [CacheSet (''ktu:roll:'' @ roll) (data pwResp)]"
      using assms fallback_ok(5) by simp
    moreover have "attempts [CacheSet (''ktu:roll:'' @ roll) (data pwResp)] = 0" by simp
    ultimately have ex: "\<exists>err tr1 rest.
        fetchWithRetries e (BACKOFF_BASE cfg) (KTU_FETCH_URL_TEMPLATE roll)
          (MAX_RETRIES cfg) = (Inl err, tr1) \<and>
        (\<not> isGateway err \<or> MAX_RETRIES cfg < int (attempts tr1)) \<and>
        tr = [CacheGet (''ktu:roll:'' @ roll), LimitRun] @ tr1
               @ PlaywrightFetch (KTU_FETCH_URL_TEMPLATE roll) # rest \<and>
        attempts rest = 0"
      using fallback_ok(2) thrown [OF fallback_ok(2)] by blast
    have "fallback_calls tr = 1"
      using assms fallback_ok(5) fetchWithRetries_trace [OF fallback_ok(2)] by auto
    with ex fallback_ok(1,2,3) show ?thesis by simp
  next
    case (fallback_failed err tr1 pwErr)
    have "tr = [CacheGet (''ktu:roll:'' @ roll), LimitRun] @ tr1
             @ PlaywrightFetch (KTU_FETCH_URL_TEMPLATE roll) # []"
      using assms fallback_failed(5) by simp
    moreover have "attempts [] = 0" by simp
    ultimately have ex: "\<exists>err tr1 rest.
        fetchWithRetries e (BACKOFF_BASE cfg) (KTU_FETCH_URL_TEMPLATE roll)
          (MAX_RETRIES cfg) = (Inl err, tr1) \<and>
        (\<not> isGateway err \<or> MAX_RETRIES cfg < int (attempts tr1)) \<and>
        tr = [CacheGet (''ktu:roll:'' @ roll), LimitRun] @ tr1
               @ PlaywrightFetch (KTU_FETCH_URL_TEMPLATE roll) # rest \<and>
        attempts rest = 0"
      using fallback_failed(2) thrown [OF fallback_failed(2)] by blast
    have "fallback_calls tr = 1"
      using assms fallback_failed(5) fetchWithRetries_trace [OF fallback_failed(2)] by auto
    with ex fallback_failed(1,2,3) show ?thesis by simp
  next
    case (direct_failed err tr1)
    with assms fetchWithRetries_trace [OF direct_failed(2)] show ?thesis by auto
  qed
qed

theorem fallback_after_primary_failure_witness:
  "fetchResultForRoll cfg_fallback env_down Map.empty ''R1'' =
     (Failure ''page.goto: net::ERR_CONNECTION_REFUSED'', Map.empty,
      [CacheGet ''ktu:roll:R1'', LimitRun,
       AxiosGet ''https://ktu.edu.in/results?roll=R1'', Sleep 400,
       AxiosGet ''https://ktu.edu.in/results?roll=R1'', Sleep 700,
       AxiosGet ''https://ktu.edu.in/results?roll=R1'', Sleep 1300,
       AxiosGet ''https://ktu.edu.in/results?roll=R1'',
       PlaywrightFetch ''https://ktu.edu.in/results?roll=R1''])
   \<and> PLAYWRIGHT_FALLBACK cfg_fallback
   \<and> fst (fetchWithRetries env_down (BACKOFF_BASE cfg_fallback)
            (KTU_FETCH_URL_TEMPLATE ''R1'') (MAX_RETRIES cfg_fallback)) = Inl err503
   \<and> fetchResultForRoll cfg_direct env_down Map.empty ''R1'' =
       (Failure (reason err503), Map.empty,
        [CacheGet ''ktu:roll:R1'', LimitRun,
         AxiosGet ''https://ktu.edu.in/results?roll=R1'', Sleep 400,
         AxiosGet ''https://ktu.edu.in/results?roll=R1'', Sleep 700,
         AxiosGet ''https://ktu.edu.in/results?roll=R1''])
   \<and> \<not> PLAYWRIGHT_FALLBACK cfg_direct"
proof -
  have a: "fetchResultForRoll cfg_fallback env_down Map.empty ''R1'' =
     (Failure ''page.goto: net::ERR_CONNECTION_REFUSED'', Map.empty,
      [CacheGet ''ktu:roll:R1'', LimitRun,
       AxiosGet ''https://ktu.edu.in/results?roll=R1'', Sleep 400,
       AxiosGet ''https://ktu.edu.in/results?roll=R1'', Sleep 700,
       AxiosGet ''https://ktu.edu.in/results?roll=R1'', Sleep 1300,
       AxiosGet ''https://ktu.edu.in/results?roll=R1'',
       PlaywrightFetch ''https://ktu.edu.in/results?roll=R1''])"
    by (simp add: run_defs resolve_defs concrete_defs)
  have b: "fetchResultForRoll cfg_direct env_down Map.empty ''R1'' =
       (Failure (reason err503), Map.empty,
        [CacheGet ''ktu:roll:R1'', LimitRun,
         AxiosGet ''https://ktu.edu.in/results?roll=R1'', Sleep 400,
         AxiosGet ''https://ktu.edu.in/results?roll=R1'', Sleep 700,
         AxiosGet ''https://ktu.edu.in/results?roll=R1''])"
    by (simp add: run_defs resolve_defs concrete_defs)
  have c: "fst (fetchWithRetries env_down (BACKOFF_BASE cfg_fallback)
            (KTU_FETCH_URL_TEMPLATE ''R1'') (MAX_RETRIES cfg_fallback)) = Inl err503"
    by (simp add: run_defs resolve_defs concrete_defs)
  have d: "PLAYWRIGHT_FALLBACK cfg_fallback" "\<not> PLAYWRIGHT_FALLBACK cfg_direct"
    by (simp_all add: cfg_fallback_def cfg_direct_def)
  note fallback_after_primary_failure [OF a] fallback_after_primary_failure [OF b]
  with a b c d show ?thesis by simp
qed

text \<open>
  C2 as stated fails: with the fallback switched on and \<open>MAX_RETRIES = 3\<close>, a 404 on
  the first call is not gateway-like and is thrown after that single call, with three
  retries left; \<open>playwrightFetch\<close> is called all the same.
\<close>

theorem fallback_without_retries_counterexample:
  "PLAYWRIGHT_FALLBACK cfg_fallback \<and> MAX_RETRIES cfg_fallback = 3
   \<and> upstream env_404 0 = Inl err404 \<and> \<not> isGateway err404
   \<and> attempts (snd (snd (fetchResultForRoll cfg_fallback env_404 Map.empty ''R1''))) = 1
   \<and> sleeps (snd (snd (fetchResultForRoll cfg_fallback env_404 Map.empty ''R1''))) = []
   \<and> fallback_calls (snd (snd (fetchResultForRoll cfg_fallback env_404 Map.empty ''R1''))) = 1"
  by (simp add: run_defs resolve_defs concrete_defs)

text \<open>
  C7. With the fallback switched on, when \<open>fetchWithRetries\<close> throws and
  \<open>playwrightFetch\<close> throws too, the failure returned carries the reason of the error
  thrown by \<open>playwrightFetch\<close>, whatever the error of the direct fetch was.
\<close>

theorem fallback_failure_reason:
  assumes "PLAYWRIGHT_FALLBACK cfg" and "\<not> truthy (c (''ktu:roll:'' @ roll))"
    and "fst (fetchWithRetries e (BACKOFF_BASE cfg) (KTU_FETCH_URL_TEMPLATE roll)
               (MAX_RETRIES cfg)) = Inl err"
    and "playwrightFetch (chromium e) (KTU_FETCH_URL_TEMPLATE roll) = Inl pwErr"
  shows "fst (fetchResultForRoll cfg e c roll) = Failure (reason pwErr)"
proof -
  obtain tr where run:
    "fetchWithRetries e (BACKOFF_BASE cfg) (KTU_FETCH_URL_TEMPLATE roll) (MAX_RETRIES cfg)
      = (Inl err, tr)"
    using assms(3)
    by (cases "fetchWithRetries e (BACKOFF_BASE cfg) (KTU_FETCH_URL_TEMPLATE roll)
                 (MAX_RETRIES cfg)") simp
  show ?thesis
    using resolve_fallback_failed [of c roll e cfg err tr pwErr] assms(1,2,4) run
    by simp
qed

theorem fallback_failure_reason_witness:
  "PLAYWRIGHT_FALLBACK cfg_fallback \<and> \<not> truthy (Map.empty (''ktu:roll:'' @ ''R1''))
   \<and> fst (fetchWithRetries env_down (BACKOFF_BASE cfg_fallback)
            (KTU_FETCH_URL_TEMPLATE ''R1'') (MAX_RETRIES cfg_fallback)) = Inl err503
   \<and> playwrightFetch (chromium env_down) (KTU_FETCH_URL_TEMPLATE ''R1'') = Inl err_browser
   \<and> fst (fetchResultForRoll cfg_fallback env_down Map.empty ''R1'')
       = Failure ''page.goto: net::ERR_CONNECTION_REFUSED''
   \<and> reason err503 = ''Request failed with status code 503''"
proof -
  have h1: "PLAYWRIGHT_FALLBACK cfg_fallback" by (simp add: cfg_fallback_def)
  have h2: "\<not> truthy (Map.empty (''ktu:roll:'' @ ''R1''))" by simp
  have h3: "fst (fetchWithRetries env_down (BACKOFF_BASE cfg_fallback)
            (KTU_FETCH_URL_TEMPLATE ''R1'') (MAX_RETRIES cfg_fallback)) = Inl err503"
    by (simp add: run_defs resolve_defs concrete_defs)
  have h4: "playwrightFetch (chromium env_down) (KTU_FETCH_URL_TEMPLATE ''R1'')
      = Inl err_browser"
    by (simp add: playwrightFetch_def env_down_def browser_down_def)
  have r1: "reason err_browser = ''page.goto: net::ERR_CONNECTION_REFUSED''"
    by (simp add: reason_def err_browser_def)
  have r2: "reason err503 = ''Request failed with status code 503''"
    by (simp add: reason_def err503_def)
  have "fst (fetchResultForRoll cfg_fallback env_down Map.empty ''R1'')
      = Failure (reason err_browser)"
    by (rule fallback_failure_reason [OF h1 h2 h3 h4])
  then have "fst (fetchResultForRoll cfg_fallback env_down Map.empty ''R1'')
      = Failure ''page.goto: net::ERR_CONNECTION_REFUSED''"
    by (simp only: r1)
  with h1 h2 h3 h4 r2 show ?thesis by blast
qed

text \<open>
  C8. Every successful result of a request in which \<open>playwrightFetch\<close> was called is
  tagged as served by the fallback: it is not from the cache and its \<open>headers\<close> are
  exactly the marker \<open>x-playwright-fallback: 1\<close>, which is what \<open>servedByFallback\<close>
  reads.
\<close>

theorem fallback_success_tagged:
  assumes "fetchResultForRoll cfg e c roll = (Success fc b h, c', tr)"
    and "0 < fallback_calls tr"
  shows "servedByFallback (Success fc b h) \<and> \<not> fc
    \<and> h = Some [(''x-playwright-fallback'', ''1'')]"
  using assms(1)
proof (cases rule: resolve_elim)
  case (hit v)
  with assms(2) show ?thesis by simp
next
  case (primary_ok resp tr1)
  with assms(2) fetchWithRetries_trace [OF primary_ok(2)] show ?thesis by simp
next
  case (fallback_ok err tr1 pwResp)
  then show ?thesis by (simp add: servedByFallback_def)
next
  case (fallback_failed err tr1 pwErr)
  then show ?thesis by simp
next
  case (direct_failed err tr1)
  then show ?thesis by simp
qed

theorem fallback_success_tagged_witness:
  "fetchResultForRoll cfg_fallback env_404 Map.empty ''R1'' =
     (Success False (JString ''<html>rendered</html>'') (Some [(''x-playwright-fallback'', ''1'')]),
      [''ktu:roll:R1'' \<mapsto> JString ''<html>rendered</html>''],
      [CacheGet ''ktu:roll:R1'', LimitRun, AxiosGet ''https://ktu.edu.in/results?roll=R1'',
       PlaywrightFetch ''https://ktu.edu.in/results?roll=R1'',
       CacheSet ''ktu:roll:R1'' (JString ''<html>rendered</html>'')])
   \<and> 0 < fallback_calls
         [CacheGet ''ktu:roll:R1'', LimitRun, AxiosGet ''https://ktu.edu.in/results?roll=R1'',
          PlaywrightFetch ''https://ktu.edu.in/results?roll=R1'',
          CacheSet ''ktu:roll:R1'' (JString ''<html>rendered</html>'')]
   \<and> servedByFallback
         (Success False (JString ''<html>rendered</html>'') (Some [(''x-playwright-fallback'', ''1'')]))"
proof -
  have a: "fetchResultForRoll cfg_fallback env_404 Map.empty ''R1'' =
     (Success False (JString ''<html>rendered</html>'') (Some [(''x-playwright-fallback'', ''1'')]),
      [''ktu:roll:R1'' \<mapsto> JString ''<html>rendered</html>''],
      [CacheGet ''ktu:roll:R1'', LimitRun, AxiosGet ''https://ktu.edu.in/results?roll=R1'',
       PlaywrightFetch ''https://ktu.edu.in/results?roll=R1'',
       CacheSet ''ktu:roll:R1'' (JString ''<html>rendered</html>'')])"
    by (simp add: run_defs resolve_defs concrete_defs)
  have b: "0 < fallback_calls
         [CacheGet ''ktu:roll:R1'', LimitRun, AxiosGet ''https://ktu.edu.in/results?roll=R1'',
          PlaywrightFetch ''https://ktu.edu.in/results?roll=R1'',
          CacheSet ''ktu:roll:R1'' (JString ''<html>rendered</html>'')]"
    by simp
  from fallback_success_tagged [OF a b] a b show ?thesis by blast
qed

subsection \<open>The cache\<close>

text \<open>
  C4. A request that returns a failure leaves the cache as it was: no \<open>cache.set\<close> is
  called. That request went to the upstream, so its cache look-up was a miss; on the
  unchanged cache the look-up of the next request for the same roll number is a miss
  again, and that request calls the upstream afresh and does not answer from the cache,
  whatever the upstream and the browser do then.
\<close>

theorem failure_not_cached:
  assumes "fetchResultForRoll cfg e c roll = (Failure msg, c', tr)"
  shows "c' = c \<and> cache_writes tr = 0 \<and> 1 \<le> attempts tr
    \<and> \<not> truthy (c' (''ktu:roll:'' @ roll))
    \<and> (\<forall>cfg2 e2.
          1 \<le> attempts (snd (snd (fetchResultForRoll cfg2 e2 c' roll))) \<and>
          (\<forall>b h. fst (fetchResultForRoll cfg2 e2 c' roll) \<noteq> Success True b h))"
  using assms
proof (cases rule: resolve_elim)
  case (hit v)
  then show ?thesis by simp
next
  case (primary_ok resp tr1)
  then show ?thesis by simp
next
  case (fallback_ok err tr1 pwResp)
  then show ?thesis by simp
next
  case (fallback_failed err tr1 pwErr)
  with fetchWithRetries_trace [OF fallback_failed(2)]
    resolve_miss [of c roll, OF fallback_failed(1)]
  show ?thesis by simp
next
  case (direct_failed err tr1)
  with fetchWithRetries_trace [OF direct_failed(2)]
    resolve_miss [of c roll, OF direct_failed(1)]
  show ?thesis by simp
qed

theorem failure_not_cached_witness:
  "fetchResultForRoll cfg_direct env_404 Map.empty ''R1'' =
     (Failure ''Request failed with status code 404'', Map.empty,
      [CacheGet ''ktu:roll:R1'', LimitRun, AxiosGet ''https://ktu.edu.in/results?roll=R1''])
   \<and> 1 \<le> attempts (snd (snd (fetchResultForRoll cfg_direct env_page Map.empty ''R1'')))
   \<and> fetchResultForRoll cfg_direct env_page Map.empty ''R1'' =
       (Success False (JString ''<html>marks</html>'') (Some [(''content-type'', ''text/html'')]),
        [''ktu:roll:R1'' \<mapsto> JString ''<html>marks</html>''],
        [CacheGet ''ktu:roll:R1'', LimitRun, AxiosGet ''https://ktu.edu.in/results?roll=R1'',
         CacheSet ''ktu:roll:R1'' (JString ''<html>marks</html>'')])"
proof -
  have a: "fetchResultForRoll cfg_direct env_404 Map.empty ''R1'' =
     (Failure ''Request failed with status code 404'', Map.empty,
      [CacheGet ''ktu:roll:R1'', LimitRun, AxiosGet ''https://ktu.edu.in/results?roll=R1''])"
    by (simp add: run_defs resolve_defs concrete_defs)
  have b: "fetchResultForRoll cfg_direct env_page Map.empty ''R1'' =
       (Success False (JString ''<html>marks</html>'') (Some [(''content-type'', ''text/html'')]),
        [''ktu:roll:R1'' \<mapsto> JString ''<html>marks</html>''],
        [CacheGet ''ktu:roll:R1'', LimitRun, AxiosGet ''https://ktu.edu.in/results?roll=R1'',
         CacheSet ''ktu:roll:R1'' (JString ''<html>marks</html>'')])"
    by (simp add: run_defs resolve_defs concrete_defs)
  from failure_not_cached [OF a]
  have "1 \<le> attempts (snd (snd (fetchResultForRoll cfg_direct env_page Map.empty ''R1'')))"
    by blast
  with a b show ?thesis by blast
qed

text \<open>
  C6, at an input where the code departs from it. An upstream that answers 200 with an
  empty body makes the request store the empty string under the key. The next request
  finds that entry, but \<open>if (cached)\<close> tests its truthiness and the empty string is
  falsy: the request runs through the limiter, calls the upstream again and reports
  \<open>fromCache = false\<close>.
\<close>

theorem empty_cached_body_not_served:
  "fetchResultForRoll cfg_direct env_empty_page Map.empty ''R1'' =
     (Success False (JString []) (Some [(''content-length'', ''0'')]), [''ktu:roll:R1'' \<mapsto> JString []],
      [CacheGet ''ktu:roll:R1'', LimitRun, AxiosGet ''https://ktu.edu.in/results?roll=R1'',
       CacheSet ''ktu:roll:R1'' (JString [])])
   \<and> [''ktu:roll:R1'' \<mapsto> JString []] ''ktu:roll:R1'' = Some (JString [])
   \<and> fetchResultForRoll cfg_direct env_empty_page [''ktu:roll:R1'' \<mapsto> JString []] ''R1'' =
       (Success False (JString []) (Some [(''content-length'', ''0'')]), [''ktu:roll:R1'' \<mapsto> JString []],
        [CacheGet ''ktu:roll:R1'', LimitRun, AxiosGet ''https://ktu.edu.in/results?roll=R1'',
         CacheSet ''ktu:roll:R1'' (JString [])])"
proof -
  have url: "KTU_FETCH_URL_TEMPLATE ''R1'' = ''https://ktu.edu.in/results?roll=R1''"
    by (simp add: KTU_FETCH_URL_TEMPLATE_def encodeURIComponent_def unreserved_def)
  have run: "fetchWithRetries env_empty_page (BACKOFF_BASE cfg_direct)
      (KTU_FETCH_URL_TEMPLATE ''R1'') (MAX_RETRIES cfg_direct)
      = (Inr empty_page, [AxiosGet (KTU_FETCH_URL_TEMPLATE ''R1'')])"
    by (simp add: fetchWithRetries_def retry_loop_success env_empty_page_def script_def)
  have miss1: "\<not> truthy (Map.empty (''ktu:roll:'' @ ''R1''))" by simp
  have miss2: "\<not> truthy ([''ktu:roll:R1'' \<mapsto> JString []] (''ktu:roll:'' @ ''R1''))" by simp
  have first: "fetchResultForRoll cfg_direct env_empty_page Map.empty ''R1'' =
     (Success False (JString []) (Some [(''content-length'', ''0'')]), [''ktu:roll:R1'' \<mapsto> JString []],
      [CacheGet ''ktu:roll:R1'', LimitRun, AxiosGet ''https://ktu.edu.in/results?roll=R1'',
       CacheSet ''ktu:roll:R1'' (JString [])])"
    using resolve_primary_ok [of Map.empty "''R1''", OF miss1 run]
    by (simp add: url empty_page_def headers_or_empty_def)
  have entry: "[''ktu:roll:R1'' \<mapsto> JString []] ''ktu:roll:R1'' = Some (JString [])" by simp
  have second: "fetchResultForRoll cfg_direct env_empty_page [''ktu:roll:R1'' \<mapsto> JString []] ''R1'' =
       (Success False (JString []) (Some [(''content-length'', ''0'')]), [''ktu:roll:R1'' \<mapsto> JString []],
        [CacheGet ''ktu:roll:R1'', LimitRun, AxiosGet ''https://ktu.edu.in/results?roll=R1'',
         CacheSet ''ktu:roll:R1'' (JString [])])"
    using resolve_primary_ok [of "[''ktu:roll:R1'' \<mapsto> JString []]" "''R1''", OF miss2 run]
    by (simp add: url empty_page_def headers_or_empty_def)
  from first entry second show ?thesis by (intro conjI)
qed

text \<open>
  C10, at an input where the code departs from it. The cache holds bodies only, and an
  answer from the cache has no headers; but whether the next request is answered from
  the cache is decided by \<open>if (cached)\<close>, the truthiness test of C6. When the upstream
  answers 200 with an empty body, or with the JSON body \<open>0\<close>, the first request stores
  that body and returns its headers, and the second request, with the entry alive,
  fetches again and returns headers again: headers are seen on more than the first
  successful fetch.
\<close>

theorem headers_seen_again_on_falsy_body:
  "result_headers (fst (fetchResultForRoll cfg_direct env_empty_page Map.empty ''R1''))
     = Some [(''content-length'', ''0'')]
   \<and> fst (snd (fetchResultForRoll cfg_direct env_empty_page Map.empty ''R1''))
       = [''ktu:roll:R1'' \<mapsto> JString []]
   \<and> fst (fetchResultForRoll cfg_direct env_empty_page [''ktu:roll:R1'' \<mapsto> JString []] ''R1'')
       = Success False (JString []) (Some [(''content-length'', ''0'')])
   \<and> result_headers (fst (fetchResultForRoll cfg_direct env_json_zero Map.empty ''R1''))
       = Some [(''content-type'', ''application/json'')]
   \<and> fst (snd (fetchResultForRoll cfg_direct env_json_zero Map.empty ''R1''))
       = [''ktu:roll:R1'' \<mapsto> JNumber 0]
   \<and> fst (fetchResultForRoll cfg_direct env_json_zero [''ktu:roll:R1'' \<mapsto> JNumber 0] ''R1'')
       = Success False (JNumber 0) (Some [(''content-type'', ''application/json'')])"
proof -
  have run1: "fetchWithRetries env_empty_page (BACKOFF_BASE cfg_direct)
      (KTU_FETCH_URL_TEMPLATE ''R1'') (MAX_RETRIES cfg_direct)
      = (Inr empty_page, [AxiosGet (KTU_FETCH_URL_TEMPLATE ''R1'')])"
    by (simp add: fetchWithRetries_def retry_loop_success env_empty_page_def script_def)
  have run2: "fetchWithRetries env_json_zero (BACKOFF_BASE cfg_direct)
      (KTU_FETCH_URL_TEMPLATE ''R1'') (MAX_RETRIES cfg_direct)
      = (Inr json_zero, [AxiosGet (KTU_FETCH_URL_TEMPLATE ''R1'')])"
    by (simp add: fetchWithRetries_def retry_loop_success env_json_zero_def script_def)
  have miss0: "\<not> truthy (Map.empty (''ktu:roll:'' @ ''R1''))" by simp
  have miss1: "\<not> truthy ([''ktu:roll:R1'' \<mapsto> JString []] (''ktu:roll:'' @ ''R1''))" by simp
  have miss2: "\<not> truthy ([''ktu:roll:R1'' \<mapsto> JNumber 0] (''ktu:roll:'' @ ''R1''))" by simp
  have a: "result_headers (fst (fetchResultForRoll cfg_direct env_empty_page Map.empty ''R1''))
     = Some [(''content-length'', ''0'')]"
    and b: "fst (snd (fetchResultForRoll cfg_direct env_empty_page Map.empty ''R1''))
       = [''ktu:roll:R1'' \<mapsto> JString []]"
    using resolve_primary_ok [of Map.empty "''R1''", OF miss0 run1]
    by (simp_all add: empty_page_def headers_or_empty_def)
  have c: "fst (fetchResultForRoll cfg_direct env_empty_page [''ktu:roll:R1'' \<mapsto> JString []] ''R1'')
       = Success False (JString []) (Some [(''content-length'', ''0'')])"
    using resolve_primary_ok [of "[''ktu:roll:R1'' \<mapsto> JString []]" "''R1''", OF miss1 run1]
    by (simp add: empty_page_def headers_or_empty_def)
  have d: "result_headers (fst (fetchResultForRoll cfg_direct env_json_zero Map.empty ''R1''))
       = Some [(''content-type'', ''application/json'')]"
    and e: "fst (snd (fetchResultForRoll cfg_direct env_json_zero Map.empty ''R1''))
       = [''ktu:roll:R1'' \<mapsto> JNumber 0]"
    using resolve_primary_ok [of Map.empty "''R1''", OF miss0 run2]
    by (simp_all add: json_zero_def headers_or_empty_def)
  have f: "fst (fetchResultForRoll cfg_direct env_json_zero [''ktu:roll:R1'' \<mapsto> JNumber 0] ''R1'')
       = Success False (JNumber 0) (Some [(''content-type'', ''application/json'')])"
    using resolve_primary_ok [of "[''ktu:roll:R1'' \<mapsto> JNumber 0]" "''R1''", OF miss2 run2]
    by (simp add: json_zero_def headers_or_empty_def)
  from a b c d e f show ?thesis by (intro conjI)
qed

end
